theory Spec2Isabelle
  imports Complex_Main "HOL-Library.Word" "HOL-Library.Sublist"
begin

section \<open>Shared vocabulary of the driver\<close>

text \<open>
  The driver is C++. Its fixed-width integers are words, its enums are datatypes, its
  classes are records whose fields keep the names of the data members, and every member
  function takes the object it reads and returns what it writes.
\<close>

type_synonym uint32_t = "32 word"
type_synonym int32_t = "32 word"
type_synonym uint64_t = "64 word"

text \<open>\<^verbatim>\<open>vr::Hmd_Eye\<close> (called \<^verbatim>\<open>vr::EVREye\<close> by the newer interface): the two eyes.\<close>

datatype Hmd_Eye = Eye_Left | Eye_Right

section \<open>The legacy device: display geometry (osvr_tracked_device.h)\<close>

subsection \<open>Display configuration\<close>

text \<open>
  \<^verbatim>\<open>OSVRDisplayConfiguration::DisplayMode\<close>. The three enumerators are the ones the
  switch of \<^verbatim>\<open>GetEyeOutputViewport\<close> names; \<open>OTHER_DISPLAY_MODE\<close> stands for any
  other value of the enumeration type, which the switch sends to its default branch.
\<close>

datatype DisplayMode =
    HORIZONTAL_SIDE_BY_SIDE
  | VERTICAL_SIDE_BY_SIDE
  | FULL_SCREEN
  | OTHER_DISPLAY_MODE int

text \<open>
  The getters of \<^verbatim>\<open>OSVRDisplayConfiguration\<close> that the device calls, as fields. The
  class is declared in osvr_display_configuration.h; the resolution is held as the
  unsigned 32-bit quantity that the device writes through its \<^verbatim>\<open>uint32_t*\<close>
  out-parameters, and the angles and lengths as reals. The display queries below take
  the configuration that \<^verbatim>\<open>m_DisplayConfiguration\<close> points to: \<^verbatim>\<open>Activate\<close> creates it,
  and the header promises that \<^verbatim>\<open>Activate\<close> is called before any display method.
\<close>

record OSVRDisplayConfiguration =
  getDisplayMode :: DisplayMode
  getDisplayWidth :: uint32_t
  getDisplayHeight :: uint32_t
  getHorizontalFOVRadians :: real
  getFOVAspectRatio :: real
  getIPDMeters :: real

subsection \<open>Eye output viewport\<close>

text \<open>The four out-parameters \<^verbatim>\<open>*x, *y, *width, *height\<close> of the viewport query.\<close>

record Viewport =
  vp_x :: uint32_t
  vp_y :: uint32_t
  vp_width :: uint32_t
  vp_height :: uint32_t

text \<open>What the function prints on \<^verbatim>\<open>std::cerr\<close>.\<close>

datatype diagnostic = Unexpected_display_mode_type DisplayMode

text \<open>
  \<^verbatim>\<open>OSVRTrackedDevice::GetEyeOutputViewport\<close>: one branch per case of the switch, the
  assignments in the order of the source (\<open>width\<close> and \<open>height\<close> first, since \<open>x\<close>
  and \<open>y\<close> read them back). The division is C++ unsigned division by two.
\<close>

definition GetEyeOutputViewport ::
  "OSVRDisplayConfiguration \<Rightarrow> Hmd_Eye \<Rightarrow> Viewport \<times> diagnostic list" where
  "GetEyeOutputViewport cfg eye =
     (case getDisplayMode cfg of
        HORIZONTAL_SIDE_BY_SIDE \<Rightarrow>
          (let width = getDisplayWidth cfg div 2;
               height = getDisplayHeight cfg;
               x = (if Eye_Left = eye then 0 else width);
               y = 0
           in (\<lparr>vp_x = x, vp_y = y, vp_width = width, vp_height = height\<rparr>, []))
      | VERTICAL_SIDE_BY_SIDE \<Rightarrow>
          (let width = getDisplayWidth cfg;
               height = getDisplayHeight cfg div 2;
               x = 0;
               y = (if Eye_Left = eye then 0 else height)
           in (\<lparr>vp_x = x, vp_y = y, vp_width = width, vp_height = height\<rparr>, []))
      | FULL_SCREEN \<Rightarrow>
          (let width = getDisplayWidth cfg;
               height = getDisplayHeight cfg;
               x = 0;
               y = 0
           in (\<lparr>vp_x = x, vp_y = y, vp_width = width, vp_height = height\<rparr>, []))
      | OTHER_DISPLAY_MODE m \<Rightarrow>
          (let width = getDisplayWidth cfg;
               height = getDisplayHeight cfg;
               x = 0;
               y = 0
           in (\<lparr>vp_x = x, vp_y = y, vp_width = width, vp_height = height\<rparr>,
               [Unexpected_display_mode_type (OTHER_DISPLAY_MODE m)])))"

text \<open>
  The pixels of a viewport: column \<open>fst p\<close> and row \<open>snd p\<close> lie in the half-open
  rectangle that starts at the origin and has the viewport's width and height. Pixel
  coordinates are natural numbers, so no sum below can wrap.
\<close>

definition covers :: "Viewport \<Rightarrow> nat \<times> nat \<Rightarrow> bool" where
  "covers v p =
     (unat (vp_x v) \<le> fst p \<and> fst p < unat (vp_x v) + unat (vp_width v) \<and>
      unat (vp_y v) \<le> snd p \<and> snd p < unat (vp_y v) + unat (vp_height v))"

text \<open>The full display rectangle \<open>(0, 0, W, H)\<close>.\<close>

definition full_display :: "OSVRDisplayConfiguration \<Rightarrow> Viewport" where
  "full_display cfg =
     \<lparr>vp_x = 0, vp_y = 0, vp_width = getDisplayWidth cfg, vp_height = getDisplayHeight cfg\<rparr>"

subsection \<open>Raw projection bounds\<close>

text \<open>
  \<^verbatim>\<open>Eigen::Matrix4d\<close>: the entry in row \<open>i\<close> and column \<open>j\<close> (both below 4) is
  \<open>m i j\<close>, as \<^verbatim>\<open>m(i, j)\<close> in the source. A finite C++ \<^verbatim>\<open>double\<close> is modelled by a real
  number, and sums, differences and products by the exact operations: the rounding of
  each operation is outside the model.
\<close>

type_synonym Matrix4d = "nat \<Rightarrow> nat \<Rightarrow> real"

text \<open>
  Division of doubles. A division by zero gives an infinity or NaN in the source, which
  no real number stands for: the quotient is \<open>None\<close> then.
\<close>

definition double_div :: "real \<Rightarrow> real \<Rightarrow> real option" where
  "double_div a b = (if b = 0 then None else Some (a / b))"

text \<open>The matrix product of two 4 by 4 matrices.\<close>

definition mat_mul :: "Matrix4d \<Rightarrow> Matrix4d \<Rightarrow> Matrix4d" where
  "mat_mul a b = (\<lambda>i j. a i 0 * b 0 j + a i 1 * b 1 j + a i 2 * b 2 j + a i 3 * b 3 j)"

text \<open>
  \<^verbatim>\<open>Eigen::Affine3d(Eigen::Translation3d(Eigen::Vector3d(x, y, z)))\<close> as a 4 by 4
  matrix: the identity with the vector in the last column.
\<close>

definition Translation3d :: "real \<Rightarrow> real \<Rightarrow> real \<Rightarrow> Matrix4d" where
  "Translation3d x y z =
     (\<lambda>i j. if j = 3 \<and> i = 0 then x
            else if j = 3 \<and> i = 1 then y
            else if j = 3 \<and> i = 2 then z
            else if i = j then 1 else 0)"

text \<open>
  The four \<^verbatim>\<open>float*\<close> out-parameters of the projection query, each the result of a
  \<^verbatim>\<open>static_cast<float>\<close>.
\<close>

record ProjectionRaw =
  pr_left :: real
  pr_right :: real
  pr_top :: real
  pr_bottom :: real

text \<open>
  The local \<^verbatim>\<open>eye_translation\<close> of \<^verbatim>\<open>OSVRTrackedDevice::GetProjectionRaw\<close>: half the
  interpupillary distance, multiplied by \<open>-1\<close> for the left eye.
\<close>

definition eye_translation :: "OSVRDisplayConfiguration \<Rightarrow> Hmd_Eye \<Rightarrow> real" where
  "eye_translation cfg eye =
     (let eye_translation = getIPDMeters cfg / 2
      in if Eye_Left = eye then eye_translation * (- 1) else eye_translation)"

text \<open>
  \<^verbatim>\<open>OSVRTrackedDevice::GetProjectionRaw\<close>. Two things that the sources do not hold are
  parameters: the helper \<^verbatim>\<open>make_projection_matrix\<close> of projection_matrix.h, from field
  of view, aspect ratio and the two clip distances to the centre matrix, and the
  rounding \<^verbatim>\<open>static_cast<float>\<close> from a double to the nearest float. The statements
  follow in the order of the source. The product \<^verbatim>\<open>translation * center\<close> of an affine
  transform with a 4 by 4 matrix is the matrix product. The local \<open>far\<close> is computed
  and never read, so its quotient is not inspected; every other quotient must be
  finite for the result to be \<open>Some\<close> bounds.
\<close>

definition GetProjectionRaw ::
  "(real \<Rightarrow> real) \<Rightarrow> (real \<Rightarrow> real \<Rightarrow> real \<Rightarrow> real \<Rightarrow> Matrix4d) \<Rightarrow>
   OSVRDisplayConfiguration \<Rightarrow> Hmd_Eye \<Rightarrow> ProjectionRaw option" where
  "GetProjectionRaw static_cast_float make_projection_matrix cfg eye =
     (let z_near = 1 / 10;
          z_far = 100;
          center = make_projection_matrix (getHorizontalFOVRadians cfg)
                     (getFOVAspectRatio cfg) z_near z_far;
          translation = Translation3d (eye_translation cfg eye) 0 0;
          eye_matrix = mat_mul translation center;
          far = double_div (eye_matrix 2 3) (eye_matrix 3 3 + 1)
      in case double_div (eye_matrix 2 3) (eye_matrix 2 2 - 1) of
           None \<Rightarrow> None
         | Some near \<Rightarrow>
             (let bottom = double_div (near * (eye_matrix 1 2 - 1)) (eye_matrix 1 1);
                  top = double_div (near * (eye_matrix 1 2 + 1)) (eye_matrix 1 1);
                  left = double_div (near * (eye_matrix 0 2 - 1)) (eye_matrix 0 0);
                  right = double_div (near * (eye_matrix 0 2 + 1)) (eye_matrix 0 0)
              in if bottom = None \<or> top = None \<or> left = None \<or> right = None then None
                 else Some \<lparr>pr_left = static_cast_float (the left),
                            pr_right = static_cast_float (the right),
                            pr_top = static_cast_float (the top),
                            pr_bottom = static_cast_float (the bottom)\<rparr>))"

text \<open>
  Modelled from the spec: what \<^verbatim>\<open>make_projection_matrix\<close> returns. The specification
  calls it a symmetric perspective projection matrix centred between the eyes, whose
  diagonal scale terms are zero only for a degenerate field of view. On a field of
  view in \<open>(0, \<pi>)\<close>, a positive aspect ratio and clip distances \<open>0 < near < far\<close> that
  is: the frustum is not sheared horizontally (entry \<open>(0, 2)\<close> is zero), the last row
  does not read the \<open>x\<close> coordinate (entry \<open>(3, 0)\<close> is zero), the two scale terms
  \<open>(0, 0)\<close> and \<open>(1, 1)\<close> are not zero, and the near distance can be recovered from the
  third row (entry \<open>(2, 2)\<close> is not 1).
\<close>

definition symmetric_perspective :: "(real \<Rightarrow> real \<Rightarrow> real \<Rightarrow> real \<Rightarrow> Matrix4d) \<Rightarrow> bool" where
  "symmetric_perspective make_projection_matrix =
     (\<forall>fov aspect z_near z_far.
        0 < fov \<and> fov < pi \<and> 0 < aspect \<and> 0 < z_near \<and> z_near < z_far \<longrightarrow>
        make_projection_matrix fov aspect z_near z_far 0 2 = 0 \<and>
        make_projection_matrix fov aspect z_near z_far 3 0 = 0 \<and>
        make_projection_matrix fov aspect z_near z_far 0 0 \<noteq> 0 \<and>
        make_projection_matrix fov aspect z_near z_far 1 1 \<noteq> 0 \<and>
        make_projection_matrix fov aspect z_near z_far 2 2 \<noteq> 1)"

text \<open>
  \<^verbatim>\<open>static_cast<float>\<close> rounds to the nearest float, and the floats are symmetric about
  zero: the rounding of \<open>- x\<close> is the negated rounding of \<open>x\<close>.
\<close>

definition odd_rounding :: "(real \<Rightarrow> real) \<Rightarrow> bool" where
  "odd_rounding static_cast_float = (\<forall>x. static_cast_float (- x) = - static_cast_float x)"

text \<open>The matrix of \<^verbatim>\<open>gluPerspective\<close>, one symmetric perspective projection.\<close>

definition gluPerspective :: "real \<Rightarrow> real \<Rightarrow> real \<Rightarrow> real \<Rightarrow> Matrix4d" where
  "gluPerspective fovy aspect z_near z_far =
     (let f = 1 / tan (fovy / 2) in
      (\<lambda>i j. if i = 0 \<and> j = 0 then f / aspect
             else if i = 1 \<and> j = 1 then f
             else if i = 2 \<and> j = 2 then (z_far + z_near) / (z_near - z_far)
             else if i = 2 \<and> j = 3 then 2 * z_far * z_near / (z_near - z_far)
             else if i = 3 \<and> j = 2 then - 1
             else 0))"

section \<open>Poses and the tracker callbacks\<close>

subsection \<open>The tracking report and the driver pose\<close>

text \<open>
  A C array \<^verbatim>\<open>double[3]\<close>, read and written by index. The driver only ever uses the
  indices 0, 1 and 2 (literals, or the counter of a loop that stops at 3); an access at
  any other index is not part of the model of any function below: there \<open>set3\<close>
  leaves the three cells as they are and \<open>get3\<close> reads the last one.
\<close>

datatype double3 = Double3 real real real

fun get3 :: "double3 \<Rightarrow> nat \<Rightarrow> real" where
  "get3 (Double3 a b c) i = (if i = 0 then a else if i = 1 then b else c)"

fun set3 :: "double3 \<Rightarrow> nat \<Rightarrow> real \<Rightarrow> double3" where
  "set3 (Double3 a b c) i v =
     (if i = 0 then Double3 v b c
      else if i = 1 then Double3 a v c
      else if i = 2 then Double3 a b v
      else Double3 a b c)"

text \<open>\<^verbatim>\<open>vr::HmdQuaternion_t\<close>: the four doubles \<open>w, x, y, z\<close>.\<close>

record HmdQuaternion_t =
  quat_w :: real
  quat_x :: real
  quat_y :: real
  quat_z :: real

text \<open>
  \<^verbatim>\<open>OSVR_PoseReport\<close> of the OSVR client library: a sensor number and a pose, itself a
  translation vector (\<^verbatim>\<open>translation.data[3]\<close>) and a rotation quaternion, which
  \<^verbatim>\<open>osvrQuatGetW\<close>, \<^verbatim>\<open>osvrQuatGetX\<close>, \<^verbatim>\<open>osvrQuatGetY\<close> and \<^verbatim>\<open>osvrQuatGetZ\<close> read.
\<close>

record OSVR_Quaternion =
  osvrQuatGetW :: real
  osvrQuatGetX :: real
  osvrQuatGetY :: real
  osvrQuatGetZ :: real

record OSVR_Pose3 =
  translation :: double3
  rotation :: OSVR_Quaternion

record OSVR_PoseReport =
  sensor :: int
  pose :: OSVR_Pose3

text \<open>\<^verbatim>\<open>vr::ETrackingResult\<close>: the enumerator the callbacks store, and any other.\<close>

datatype ETrackingResult = TrackingResult_Running_OK | TrackingResult_other int

text \<open>
  \<^verbatim>\<open>vr::DriverPose_t\<close>, declared by the OpenVR driver header: the fields that the
  callbacks assign, which are the ones the specification lists for a pose (position,
  orientation, linear and angular velocity and acceleration, validity flag, result
  code, drift and head-model flags, time offset, and the two fixed transforms).
\<close>

record DriverPose_t =
  poseTimeOffset :: real
  qWorldFromDriverRotation :: HmdQuaternion_t
  vecWorldFromDriverTranslation :: double3
  qDriverFromHeadRotation :: HmdQuaternion_t
  vecDriverFromHeadTranslation :: double3
  vecPosition :: double3
  vecVelocity :: double3
  vecAcceleration :: double3
  qRotation :: HmdQuaternion_t
  vecAngularVelocity :: double3
  vecAngularAcceleration :: double3
  result :: ETrackingResult
  poseIsValid :: bool
  willDriftInYaw :: bool
  shouldApplyHeadModel :: bool

subsection \<open>The legacy callback (osvr_tracked_device.h)\<close>

text \<open>
  The legacy class \<^verbatim>\<open>OSVRTrackedDevice\<close>: its display configuration (a
  \<^verbatim>\<open>unique_ptr\<close>, null until \<^verbatim>\<open>Activate\<close>) and its member \<^verbatim>\<open>pose_\<close>, here
  \<open>legacy_pose\<close>: an identifier cannot end in an underscore, and the newer class of
  the same name, which follows below, has a member \<^verbatim>\<open>pose_\<close> of its own.
\<close>

record OSVRTrackedDevice_legacy =
  m_DisplayConfiguration :: "OSVRDisplayConfiguration option"
  legacy_pose :: DriverPose_t

text \<open>
  \<^verbatim>\<open>OSVRTrackedDevice::HmdTrackerCallback\<close> of the legacy class. \<open>userdata\<close> is the
  \<^verbatim>\<open>void*\<close>: \<open>None\<close> the null pointer, \<open>Some self\<close> the device it points to; the
  result is the device after the call. The local \<^verbatim>\<open>vr::DriverPose_t pose;\<close> is
  declared without an initialiser, so it starts from an indeterminate value
  \<open>uninitialised\<close>; the statements follow, one update each, the three loops over
  \<open>i = 0, 1, 2\<close> as folds. The position loop reads \<^verbatim>\<open>translation.data[0]\<close> in every
  round, as the source does. The timestamp is not read.
\<close>

definition HmdTrackerCallback_legacy ::
  "DriverPose_t \<Rightarrow> OSVRTrackedDevice_legacy option \<Rightarrow> OSVR_PoseReport \<Rightarrow>
     OSVRTrackedDevice_legacy option" where
  "HmdTrackerCallback_legacy uninitialised userdata report =
     (case userdata of
        None \<Rightarrow> None
      | Some self \<Rightarrow>
          (let p0 = uninitialised\<lparr>poseTimeOffset := 0\<rparr>;
               p1 = fold (\<lambda>i p. p\<lparr>vecWorldFromDriverTranslation :=
                                      set3 (vecWorldFromDriverTranslation p) i 0,
                                   vecDriverFromHeadTranslation :=
                                      set3 (vecDriverFromHeadTranslation p) i 0\<rparr>)
                      [0 ..< 3] p0;
               p2 = p1\<lparr>qWorldFromDriverRotation :=
                          \<lparr>quat_w = 1, quat_x = 0, quat_y = 0, quat_z = 0\<rparr>\<rparr>;
               p3 = p2\<lparr>qDriverFromHeadRotation :=
                          \<lparr>quat_w = 1, quat_x = 0, quat_y = 0, quat_z = 0\<rparr>\<rparr>;
               p4 = fold (\<lambda>i p. p\<lparr>vecPosition :=
                                      set3 (vecPosition p) i
                                        (get3 (translation (pose report)) 0)\<rparr>)
                      [0 ..< 3] p3;
               p5 = fold (\<lambda>i p. p\<lparr>vecVelocity := set3 (vecVelocity p) i 0,
                                   vecAcceleration := set3 (vecAcceleration p) i 0\<rparr>)
                      [0 ..< 3] p4;
               p6 = p5\<lparr>qRotation :=
                          \<lparr>quat_w = osvrQuatGetW (rotation (pose report)),
                           quat_x = osvrQuatGetX (rotation (pose report)),
                           quat_y = osvrQuatGetY (rotation (pose report)),
                           quat_z = osvrQuatGetZ (rotation (pose report))\<rparr>\<rparr>;
               p7 = fold (\<lambda>i p. p\<lparr>vecAngularVelocity := set3 (vecAngularVelocity p) i 0,
                                   vecAngularAcceleration :=
                                      set3 (vecAngularAcceleration p) i 0\<rparr>)
                      [0 ..< 3] p6;
               p8 = p7\<lparr>result := TrackingResult_Running_OK, poseIsValid := True,
                        willDriftInYaw := True, shouldApplyHeadModel := True\<rparr>
           in Some (self\<lparr>legacy_pose := p8\<rparr>)))"

text \<open>\<^verbatim>\<open>OSVRTrackedDevice::GetPose\<close> of the legacy class returns the member.\<close>

definition GetPose_legacy :: "OSVRTrackedDevice_legacy \<Rightarrow> DriverPose_t" where
  "GetPose_legacy self = legacy_pose self"

section \<open>The tracked device and its property store (OSVRTrackedDevice.h)\<close>

subsection \<open>Enumerations of the OpenVR driver interface\<close>

text \<open>
  \<^verbatim>\<open>vr::ETrackedDeviceClass\<close>: the two enumerators the driver names, and any other.
\<close>

datatype ETrackedDeviceClass =
    TrackedDeviceClass_Invalid
  | TrackedDeviceClass_HMD
  | TrackedDeviceClass_other int

text \<open>\<^verbatim>\<open>vr::ETrackedPropertyError\<close>: the enumerators the header names.\<close>

datatype ETrackedPropertyError =
    TrackedProp_Success
  | TrackedProp_WrongDataType
  | TrackedProp_WrongDeviceClass
  | TrackedProp_BufferTooSmall
  | TrackedProp_InvalidDevice
  | TrackedProp_ValueNotProvidedByDevice

text \<open>\<^verbatim>\<open>vr::ETrackedDeviceProperty\<close>: a property identifier, by its numeric value.\<close>

type_synonym ETrackedDeviceProperty = int

subsection \<open>Property values\<close>

text \<open>
  Modelled from the spec: \<^verbatim>\<open>PropertyMap\<close> is declared in PropertyMap.h, which is not
  among the sources. The getter uses it as a \<^verbatim>\<open>std::map\<close> from property identifiers
  to a \<^verbatim>\<open>boost::variant\<close> (\<^verbatim>\<open>find\<close>, \<^verbatim>\<open>end\<close>, \<^verbatim>\<open>operator[]\<close>, \<^verbatim>\<open>boost::get<T>\<close>), and the
  specification gives the alternatives: a value is a tagged union over the kinds bool,
  float, int32, uint64, string and matrix34. The template parameter \<open>T\<close> of the
  getters ranges over these kinds.
\<close>

datatype property_kind =
  kind_bool | kind_float | kind_int32 | kind_uint64 | kind_string | kind_matrix34

datatype Property =
    Bool_value bool
  | Float_value real
  | Int32_value int32_t
  | Uint64_value uint64_t
  | String_value string
  | Matrix34_value "real list"

fun which :: "Property \<Rightarrow> property_kind" where
  "which (Bool_value _) = kind_bool"
| "which (Float_value _) = kind_float"
| "which (Int32_value _) = kind_int32"
| "which (Uint64_value _) = kind_uint64"
| "which (String_value _) = kind_string"
| "which (Matrix34_value _) = kind_matrix34"

text \<open>
  What a call can end in besides a return: the exception \<^verbatim>\<open>boost::bad_get\<close>, a
  \<^verbatim>\<open>std::runtime_error\<close> of the OSVR client library, and undefined behaviour (a write
  through a null pointer, an index past the end of a vector).
\<close>

datatype exception = bad_get | runtime_error | undefined_behaviour

text \<open>
  \<^verbatim>\<open>boost::get<T>(v)\<close> on a reference to a variant: the held value when the variant
  holds a \<open>T\<close>, and \<^verbatim>\<open>bad_get\<close> thrown otherwise.
\<close>

definition boost_get :: "property_kind \<Rightarrow> Property \<Rightarrow> exception + Property" where
  "boost_get T v = (if which v = T then Inr v else Inl bad_get)"

subsection \<open>The device\<close>

text \<open>
  The data members of \<^verbatim>\<open>OSVRTrackedDevice\<close> that the functions below read or write:
  \<^verbatim>\<open>pose_\<close>, \<^verbatim>\<open>deviceClass_\<close>, \<^verbatim>\<open>objectId_\<close> and \<^verbatim>\<open>properties_\<close>. An identifier cannot
  end in an underscore, so the trailing underscore of a member becomes the prefix
  \<open>m_\<close>.
\<close>

record OSVRTrackedDevice =
  m_pose :: DriverPose_t
  m_deviceClass :: ETrackedDeviceClass
  m_objectId :: uint32_t
  m_properties :: "ETrackedDeviceProperty \<rightharpoonup> Property"

subsection \<open>Checking and reading a property\<close>

text \<open>
  \<^verbatim>\<open>OSVRTrackedDevice::checkProperty<T>\<close>. The two predicates \<^verbatim>\<open>isWrongDataType\<close> and
  \<^verbatim>\<open>isWrongDeviceClass\<close> come from PropertyProperties.h, which is not among the
  sources; they are parameters. The three tests run in the order of the source.
\<close>

definition checkProperty ::
  "(ETrackedDeviceProperty \<Rightarrow> property_kind \<Rightarrow> bool) \<Rightarrow>
   (ETrackedDeviceProperty \<Rightarrow> ETrackedDeviceClass \<Rightarrow> bool) \<Rightarrow>
   'a OSVRTrackedDevice_scheme \<Rightarrow> property_kind \<Rightarrow> ETrackedDeviceProperty \<Rightarrow>
     ETrackedPropertyError" where
  "checkProperty isWrongDataType isWrongDeviceClass self T prop =
     (if isWrongDataType prop T then TrackedProp_WrongDataType
      else if isWrongDeviceClass prop (m_deviceClass self) then TrackedProp_WrongDeviceClass
      else if TrackedDeviceClass_Invalid = m_deviceClass self then TrackedProp_InvalidDevice
      else TrackedProp_Success)"

text \<open>
  The error out-parameter \<^verbatim>\<open>vr::ETrackedPropertyError* error\<close>: \<open>None\<close> is the null
  pointer and \<open>Some a\<close> points to the cell \<open>a\<close> of the caller's memory, which maps
  cells to error codes. The statement \<^verbatim>\<open>*error = e\<close> writes the cell; through the null
  pointer it is undefined behaviour.
\<close>

type_synonym error_memory = "nat \<Rightarrow> ETrackedPropertyError"

fun assign_through ::
  "nat option \<Rightarrow> ETrackedPropertyError \<Rightarrow> error_memory \<Rightarrow> exception + error_memory" where
  "assign_through None e mem = Inl undefined_behaviour"
| "assign_through (Some a) e mem = Inr (mem(a := e))"

text \<open>The guarded statement \<^verbatim>\<open>if (error) *error = e;\<close>.\<close>

definition if_error_assign ::
  "nat option \<Rightarrow> ETrackedPropertyError \<Rightarrow> error_memory \<Rightarrow> exception + error_memory" where
  "if_error_assign error e mem =
     (if error \<noteq> None then assign_through error e mem else Inr mem)"

text \<open>
  \<^verbatim>\<open>OSVRTrackedDevice::GetTrackedDeviceProperty<T>\<close>: the value returned together with
  the caller's memory after the call, or how the call failed. \<open>default_value\<close> is the
  \<^verbatim>\<open>const T&\<close> of the caller. In the found branch the error is written before
  \<^verbatim>\<open>boost::get<T>\<close> runs, as in the source; \<^verbatim>\<open>properties_[prop]\<close> on a key that is
  present does not change the map.
\<close>

definition GetTrackedDeviceProperty ::
  "(ETrackedDeviceProperty \<Rightarrow> property_kind \<Rightarrow> bool) \<Rightarrow>
   (ETrackedDeviceProperty \<Rightarrow> ETrackedDeviceClass \<Rightarrow> bool) \<Rightarrow>
   'a OSVRTrackedDevice_scheme \<Rightarrow> property_kind \<Rightarrow> ETrackedDeviceProperty \<Rightarrow>
   nat option \<Rightarrow> Property \<Rightarrow> error_memory \<Rightarrow> exception + (Property \<times> error_memory)" where
  "GetTrackedDeviceProperty isWrongDataType isWrongDeviceClass self T prop error
       default_value mem =
     (let result = checkProperty isWrongDataType isWrongDeviceClass self T prop in
      if TrackedProp_Success \<noteq> result then
        (case if_error_assign error result mem of
           Inl x \<Rightarrow> Inl x
         | Inr mem' \<Rightarrow> Inr (default_value, mem'))
      else
        (case m_properties self prop of
           Some stored \<Rightarrow>
             (case if_error_assign error TrackedProp_Success mem of
                Inl x \<Rightarrow> Inl x
              | Inr mem' \<Rightarrow>
                  (case boost_get T stored of
                     Inl x \<Rightarrow> Inl x
                   | Inr v \<Rightarrow> Inr (v, mem')))
         | None \<Rightarrow>
             (case if_error_assign error TrackedProp_ValueNotProvidedByDevice mem of
                Inl x \<Rightarrow> Inl x
              | Inr mem' \<Rightarrow> Inr (default_value, mem'))))"

section \<open>The head-mounted display (OSVRTrackedHMD.cpp)\<close>

subsection \<open>The attached display\<close>

text \<open>
  \<^verbatim>\<open>osvr::display::Display\<close>, with the members that \<^verbatim>\<open>configure\<close> assigns; the nested
  members \<^verbatim>\<open>adapter.description\<close>, \<^verbatim>\<open>size.width\<close>, \<^verbatim>\<open>size.height\<close>, \<^verbatim>\<open>position.x\<close> and
  \<^verbatim>\<open>position.y\<close> are flattened.
\<close>

datatype Rotation = Zero | Ninety | OneEighty | TwoSeventy

record Display =
  adapter_description :: string
  name :: string
  size_width :: uint32_t
  size_height :: uint32_t
  position_x :: int32_t
  position_y :: int32_t
  display_rotation :: Rotation
  verticalRefreshRate :: real
  attachedToDesktop :: bool
  edidVendorId :: uint32_t
  edidProductId :: uint32_t

text \<open>
  \<^verbatim>\<open>std::string::find(str)\<close>: the position of the first occurrence of \<open>str\<close>, or
  \<^verbatim>\<open>npos\<close>, here \<open>None\<close>.
\<close>

fun string_find :: "string \<Rightarrow> string \<Rightarrow> nat option" where
  "string_find [] str = (if str = [] then Some 0 else None)"
| "string_find (c # cs) str =
     (if prefix str (c # cs) then Some 0 else map_option Suc (string_find cs str))"

subsection \<open>Collaborators of the OSVR libraries\<close>

text \<open>
  The tracker interface \<^verbatim>\<open>osvr::clientkit::Interface\<close>: empty (\<open>None\<close>), or bound to
  a path, with or without a registered callback.
\<close>

datatype Interface = Interface string bool

text \<open>
  \<^verbatim>\<open>osvr::clientkit::DisplayConfig\<close> as far as \<^verbatim>\<open>Activate\<close> reads it: for each viewer
  and each of its eyes, the number of surfaces. A query about a viewer or an eye that
  does not exist fails in the client library.
\<close>

type_synonym DisplayConfig = "nat list list"

definition getNumViewers :: "DisplayConfig \<Rightarrow> nat" where
  "getNumViewers dc = length dc"

definition getNumEyes :: "DisplayConfig \<Rightarrow> nat \<Rightarrow> exception + nat" where
  "getNumEyes dc viewer =
     (if viewer < length dc then Inr (length (dc ! viewer)) else Inl runtime_error)"

definition getNumSurfaces :: "DisplayConfig \<Rightarrow> nat \<Rightarrow> nat \<Rightarrow> exception + nat" where
  "getNumSurfaces dc viewer eye =
     (if viewer < length dc \<and> eye < length (dc ! viewer) then Inr (dc ! viewer ! eye)
      else Inl runtime_error)"

text \<open>
  What lies outside the driver, as \<^verbatim>\<open>Activate\<close> observes it. The client context
  answers \<^verbatim>\<open>checkStatus\<close> and the display configuration answers \<^verbatim>\<open>checkStartup\<close> as a
  function of how many times \<^verbatim>\<open>context_.update()\<close> has run; \<^verbatim>\<open>std::time(nullptr)\<close>
  returns the next reading of the clock; \<^verbatim>\<open>getStringParameter\<close> returns the string
  stored under a path (empty when there is none); \<open>server_display\<close> is the display
  configuration that the server describes.
\<close>

record world =
  checkStatus_after :: "nat \<Rightarrow> bool"
  checkStartup_after :: "nat \<Rightarrow> bool"
  updates :: nat
  time_reading :: "nat \<Rightarrow> int"
  readings :: nat
  getStringParameter :: "string \<Rightarrow> string"
  server_display :: DisplayConfig

definition std_time :: "world \<Rightarrow> int \<times> world" where
  "std_time w = (time_reading w (readings w), w\<lparr>readings := Suc (readings w)\<rparr>)"

definition context_update :: "world \<Rightarrow> world" where
  "context_update w = w\<lparr>updates := Suc (updates w)\<rparr>"

text \<open>
  The RenderKit functions the driver calls, as a record of parameters: the number of
  eyes of a parsed display descriptor, the constructor of the distortion parameters of
  one eye (descriptor, eye, desired number of triangles), the builder of the mesh
  interpolators (its result says whether it succeeded), and the distortion lookup
  \<^verbatim>\<open>DistortionCorrectTextureCoordinate\<close> (eye, input coordinates, distortion
  parameters, colour, overfill factor, interpolators). The render-manager parser is
  represented by whether it accepts a string.
\<close>

record ('dp, 'mi) RenderKit =
  getEyes_size :: "string \<Rightarrow> nat"
  DistortionParameters :: "string \<Rightarrow> nat \<Rightarrow> nat \<Rightarrow> 'dp"
  makeUnstructuredMeshInterpolators :: "'dp \<Rightarrow> nat \<Rightarrow> 'mi \<Rightarrow> bool \<times> 'mi"
  DistortionCorrectTextureCoordinate ::
    "nat \<Rightarrow> real \<times> real \<Rightarrow> 'dp \<Rightarrow> nat \<Rightarrow> real \<Rightarrow> 'mi \<Rightarrow> real \<times> real"
  parse_accepts :: "string \<Rightarrow> bool"

text \<open>Calls that the driver makes on \<^verbatim>\<open>vr::IServerDriverHost\<close>, in order.\<close>

datatype host_call =
    TrackedDevicePoseUpdated uint32_t DriverPose_t
  | ProximitySensorState uint32_t bool

subsection \<open>The class\<close>

text \<open>
  \<^verbatim>\<open>OSVRTrackedHMD\<close> extends \<^verbatim>\<open>OSVRTrackedDevice\<close>. \<open>m_settings\<close> is
  \<^verbatim>\<open>settings_->getSetting<std::string>\<close>, from a key and a default to the value.
\<close>

record ('dp, 'mi) OSVRTrackedHMD = OSVRTrackedDevice +
  m_settings :: "string \<Rightarrow> string \<Rightarrow> string"
  m_display :: Display
  m_trackerInterface :: "Interface option"
  m_displayConfig :: DisplayConfig
  m_displayDescription :: string
  m_distortionParameters :: "'dp list"
  m_leftEyeInterpolators :: 'mi
  m_rightEyeInterpolators :: 'mi
  m_overfillFactor :: real
  m_renderManagerConfig :: string

subsection \<open>The tracker callback\<close>

text \<open>
  \<^verbatim>\<open>OSVRTrackedHMD::HmdTrackerCallback\<close>. As in the legacy callback the local pose
  starts indeterminate. Each \<^verbatim>\<open>Eigen::Vector3d::Map(v) = ...\<close> overwrites the three
  cells of \<open>v\<close>, and each \<^verbatim>\<open>map(q) = ...\<close> the four coefficients of \<open>q\<close>; \<^verbatim>\<open>vecMap\<close> and
  \<^verbatim>\<open>fromQuat\<close> read the report's translation and rotation. The result is the device
  after the call with the call made on the driver host, or \<open>None\<close> when \<open>userdata\<close>
  is null and nothing happens.
\<close>

definition HmdTrackerCallback ::
  "DriverPose_t \<Rightarrow> ('dp, 'mi, 'z) OSVRTrackedHMD_scheme option \<Rightarrow> OSVR_PoseReport \<Rightarrow>
     (('dp, 'mi, 'z) OSVRTrackedHMD_scheme \<times> host_call list) option" where
  "HmdTrackerCallback uninitialised userdata report =
     (case userdata of
        None \<Rightarrow> None
      | Some self \<Rightarrow>
          (let p0 = uninitialised\<lparr>poseTimeOffset := 0\<rparr>;
               p1 = p0\<lparr>vecWorldFromDriverTranslation := Double3 0 0 0\<rparr>;
               p2 = p1\<lparr>vecDriverFromHeadTranslation := Double3 0 0 0\<rparr>;
               p3 = p2\<lparr>qWorldFromDriverRotation :=
                          \<lparr>quat_w = 1, quat_x = 0, quat_y = 0, quat_z = 0\<rparr>\<rparr>;
               p4 = p3\<lparr>qDriverFromHeadRotation :=
                          \<lparr>quat_w = 1, quat_x = 0, quat_y = 0, quat_z = 0\<rparr>\<rparr>;
               p5 = p4\<lparr>vecPosition :=
                          Double3 (get3 (translation (pose report)) 0)
                                  (get3 (translation (pose report)) 1)
                                  (get3 (translation (pose report)) 2)\<rparr>;
               p6 = p5\<lparr>vecVelocity := Double3 0 0 0\<rparr>;
               p7 = p6\<lparr>vecAcceleration := Double3 0 0 0\<rparr>;
               p8 = p7\<lparr>qRotation :=
                          \<lparr>quat_w = osvrQuatGetW (rotation (pose report)),
                           quat_x = osvrQuatGetX (rotation (pose report)),
                           quat_y = osvrQuatGetY (rotation (pose report)),
                           quat_z = osvrQuatGetZ (rotation (pose report))\<rparr>\<rparr>;
               p9 = p8\<lparr>vecAngularVelocity := Double3 0 0 0\<rparr>;
               p10 = p9\<lparr>vecAngularAcceleration := Double3 0 0 0\<rparr>;
               p11 = p10\<lparr>result := TrackingResult_Running_OK, poseIsValid := True,
                          willDriftInYaw := True, shouldApplyHeadModel := True\<rparr>;
               self' = self\<lparr>m_pose := p11\<rparr>
           in Some (self', [TrackedDevicePoseUpdated (m_objectId self') (m_pose self')])))"

subsection \<open>Distortion\<close>

text \<open>\<^verbatim>\<open>vr::DistortionCoordinates_t\<close>: one \<^verbatim>\<open>float[2]\<close> per colour channel.\<close>

record DistortionCoordinates_t =
  rfRed :: "real \<times> real"
  rfGreen :: "real \<times> real"
  rfBlue :: "real \<times> real"

text \<open>
  \<^verbatim>\<open>OSVRTrackedDevice::ComputeDistortion\<close> of the legacy class: the body marked
  \<^verbatim>\<open>@todo FIXME Compute distortion using display configuration data\<close>. It reads
  neither the eye nor the coordinates and sets all six floats to zero.
\<close>

definition ComputeDistortion_legacy :: "Hmd_Eye \<Rightarrow> real \<Rightarrow> real \<Rightarrow> DistortionCoordinates_t" where
  "ComputeDistortion_legacy eye u v = \<lparr>rfRed = (0, 0), rfGreen = (0, 0), rfBlue = (0, 0)\<rparr>"

text \<open>
  \<^verbatim>\<open>OSVRTrackedHMD::ComputeDistortion\<close>. A \<^verbatim>\<open>float\<close> is modelled by a real number and
  \<^verbatim>\<open>1.0f - v\<close> by the exact difference. \<^verbatim>\<open>distortionParameters_[osvr_eye]\<close> indexes a
  \<^verbatim>\<open>std::vector\<close>, which is undefined behaviour past its end.
\<close>

definition COLOR_RED :: nat where "COLOR_RED = 0"
definition COLOR_GREEN :: nat where "COLOR_GREEN = 1"
definition COLOR_BLUE :: nat where "COLOR_BLUE = 2"

definition ComputeDistortion ::
  "('dp, 'mi) RenderKit \<Rightarrow> ('dp, 'mi, 'z) OSVRTrackedHMD_scheme \<Rightarrow> Hmd_Eye \<Rightarrow> real \<Rightarrow> real \<Rightarrow>
     exception + DistortionCoordinates_t" where
  "ComputeDistortion lib self eye u v =
     (let osvr_eye = (case eye of Eye_Left \<Rightarrow> 0 | Eye_Right \<Rightarrow> 1) in
      if \<not> osvr_eye < length (m_distortionParameters self) then Inl undefined_behaviour
      else
        (let distortion_parameters = m_distortionParameters self ! osvr_eye;
             in_coords = (u, 1 - v);
             interpolators =
               (if Eye_Right = eye then m_rightEyeInterpolators self
                else m_leftEyeInterpolators self);
             coords_red = DistortionCorrectTextureCoordinate lib osvr_eye in_coords
                            distortion_parameters COLOR_RED (m_overfillFactor self) interpolators;
             coords_green = DistortionCorrectTextureCoordinate lib osvr_eye in_coords
                            distortion_parameters COLOR_GREEN (m_overfillFactor self) interpolators;
             coords_blue = DistortionCorrectTextureCoordinate lib osvr_eye in_coords
                            distortion_parameters COLOR_BLUE (m_overfillFactor self) interpolators
         in Inr \<lparr>rfRed = (fst coords_red, 1 - snd coords_red),
                 rfGreen = (fst coords_green, 1 - snd coords_green),
                 rfBlue = (fst coords_blue, 1 - snd coords_blue)\<rparr>))"

subsection \<open>Configuration of the display\<close>

text \<open>
  The loop of \<^verbatim>\<open>OSVRTrackedHMD::configure\<close> over the detected displays, on the pair of
  \<^verbatim>\<open>display_\<close> and \<^verbatim>\<open>display_found\<close>: a display whose name does not contain
  \<open>display_name\<close> is skipped (\<^verbatim>\<open>continue\<close>), the first one that does is taken and ends
  the loop (\<^verbatim>\<open>break\<close>).
\<close>

fun configure_loop :: "string \<Rightarrow> Display list \<Rightarrow> Display \<times> bool \<Rightarrow> Display \<times> bool" where
  "configure_loop display_name [] found = found"
| "configure_loop display_name (display # displays) found =
     (if None = string_find (name display) display_name
      then configure_loop display_name displays found
      else (display, True))"

text \<open>
  \<^verbatim>\<open>OSVRTrackedHMD::configure\<close>: \<open>displays\<close> is what \<^verbatim>\<open>osvr::display::getDisplays()\<close>
  returns. The eleven assignments of the default branch are one update each. The log
  lines that follow in the source read \<^verbatim>\<open>display_\<close> and change nothing.
\<close>

definition configure ::
  "Display list \<Rightarrow> ('dp, 'mi, 'z) OSVRTrackedHMD_scheme \<Rightarrow> ('dp, 'mi, 'z) OSVRTrackedHMD_scheme" where
  "configure displays self =
     (let display_name = m_settings self ''displayName'' ''OSVR'';
          (display, display_found) = configure_loop display_name displays (m_display self, False);
          display' =
            (if \<not> display_found then
               display\<lparr>adapter_description := ''Unknown'',
                       name := ''OSVR HDK'',
                       size_width := 1920,
                       size_height := 1080,
                       position_x := 1920,
                       position_y := 0,
                       display_rotation := Zero,
                       verticalRefreshRate := 60,
                       attachedToDesktop := True,
                       edidVendorId := 0xd24e,
                       edidProductId := 0x1019\<rparr>
             else display)
      in self\<lparr>m_display := display'\<rparr>)"

subsection \<open>Activation\<close>

text \<open>\<^verbatim>\<open>vr::EVRInitError\<close>: the three values \<^verbatim>\<open>Activate\<close> returns.\<close>

datatype EVRInitError =
    VRInitError_None
  | VRInitError_Driver_Failed
  | VRInitError_Driver_HmdDisplayNotFound

text \<open>
  Both waiting loops of \<^verbatim>\<open>Activate\<close>:
  \<^verbatim>\<open>while (!ready()) { context_.update(); if (std::time(nullptr) > startTime + waitTime) return ...; }\<close>
  with \<open>deadline = startTime + waitTime\<close>. The result says whether the loop was left
  because the condition held (\<open>True\<close>) or by the timeout (\<open>False\<close>). Nothing bounds
  the number of rounds when the clock stands still, so the function is partial: \<open>None\<close>
  is a loop that never ends.
\<close>

partial_function (option) wait_until ::
  "(nat \<Rightarrow> bool) \<Rightarrow> int \<Rightarrow> world \<Rightarrow> (bool \<times> world) option" where
  "wait_until ready deadline w =
     (if ready (updates w) then Some (True, w)
      else
        (let w1 = context_update w;
             (now, w2) = std_time w1
         in if now > deadline then Some (False, w2)
            else wait_until ready deadline w2))"

text \<open>
  \<^verbatim>\<open>OSVRTrackedHMD::configureDistortionParameters\<close>: the descriptor is read from the
  context, one distortion parameter set per eye is appended to
  \<^verbatim>\<open>distortionParameters_\<close> with \<^verbatim>\<open>m_desiredTriangles = 200 * 64\<close>, and the interpolators
  of the two eyes are built from entries 0 and 1 of the vector (a failed build is only
  logged).
\<close>

definition configureDistortionParameters ::
  "('dp, 'mi) RenderKit \<Rightarrow> world \<Rightarrow> ('dp, 'mi, 'z) OSVRTrackedHMD_scheme \<Rightarrow>
     exception + ('dp, 'mi, 'z) OSVRTrackedHMD_scheme" where
  "configureDistortionParameters lib w self =
     (let description = getStringParameter w ''/display'';
          self1 = self\<lparr>m_displayDescription := description\<rparr>;
          self2 = self1\<lparr>m_distortionParameters :=
                    m_distortionParameters self1 @
                    map (\<lambda>i. DistortionParameters lib description i (200 * 64))
                      [0 ..< getEyes_size lib description]\<rparr>
      in if \<not> 0 < length (m_distortionParameters self2) then Inl undefined_behaviour
         else
           (let (ok_left, left) =
                  makeUnstructuredMeshInterpolators lib (m_distortionParameters self2 ! 0) 0
                    (m_leftEyeInterpolators self2);
                self3 = self2\<lparr>m_leftEyeInterpolators := left\<rparr>
            in if \<not> 1 < length (m_distortionParameters self3) then Inl undefined_behaviour
               else
                 (let (ok_right, right) =
                        makeUnstructuredMeshInterpolators lib (m_distortionParameters self3 ! 1) 1
                          (m_rightEyeInterpolators self3)
                  in Inr (self3\<lparr>m_rightEyeInterpolators := right\<rparr>))))"

text \<open>
  The condition of the block \<^verbatim>\<open>// Verify valid display config\<close>, a conjunction of four
  comparisons evaluated from the left, each only when those before it hold:
  \<^verbatim>\<open>getNumViewers() != 1\<close>, \<^verbatim>\<open>getViewer(0).getNumEyes() != 2\<close>,
  \<^verbatim>\<open>getViewer(0).getEye(0).getNumSurfaces() == 1\<close> and
  \<^verbatim>\<open>getViewer(0).getEye(1).getNumSurfaces() != 1\<close>.
\<close>

definition unexpected_display_parameters :: "DisplayConfig \<Rightarrow> exception + bool" where
  "unexpected_display_parameters dc =
     (if getNumViewers dc \<noteq> 1 then
        (case getNumEyes dc 0 of
           Inl x \<Rightarrow> Inl x
         | Inr eyes \<Rightarrow>
             if eyes \<noteq> 2 then
               (case getNumSurfaces dc 0 0 of
                  Inl x \<Rightarrow> Inl x
                | Inr s0 \<Rightarrow>
                    if s0 = 1 then
                      (case getNumSurfaces dc 0 1 of
                         Inl x \<Rightarrow> Inl x
                       | Inr s1 \<Rightarrow> Inr (s1 \<noteq> 1))
                    else Inr False)
             else Inr False)
      else Inr False)"

text \<open>
  The whole block: \<open>Some e\<close> when \<^verbatim>\<open>Activate\<close> returns \<open>e\<close> from inside it, \<open>None\<close>
  when control leaves it and activation goes on. Inside, the three tests run in the
  order of the \<^verbatim>\<open>if\<close> / \<^verbatim>\<open>else if\<close> chain.
\<close>

definition verify_display_config :: "DisplayConfig \<Rightarrow> exception + EVRInitError option" where
  "verify_display_config dc =
     (case unexpected_display_parameters dc of
        Inl x \<Rightarrow> Inl x
      | Inr False \<Rightarrow> Inr None
      | Inr True \<Rightarrow>
          if getNumViewers dc < 1 then Inr (Some VRInitError_Driver_HmdDisplayNotFound)
          else
            (case getNumEyes dc 0 of
               Inl x \<Rightarrow> Inl x
             | Inr eyes \<Rightarrow>
                 if eyes < 2 then Inr (Some VRInitError_Driver_HmdDisplayNotFound)
                 else
                   (case getNumSurfaces dc 0 0 of
                      Inl x \<Rightarrow> Inl x
                    | Inr s0 \<Rightarrow>
                        if s0 < 1 then Inr (Some VRInitError_Driver_HmdDisplayNotFound)
                        else
                          (case getNumSurfaces dc 0 1 of
                             Inl x \<Rightarrow> Inl x
                           | Inr s1 \<Rightarrow>
                               if s1 < 1
                               then Inr (Some VRInitError_Driver_HmdDisplayNotFound)
                               else Inr None))))"

text \<open>
  The end of \<^verbatim>\<open>Activate\<close>, after the display has been verified: the tracker callback is
  registered on \<^verbatim>\<open>/me/head\<close>, the render-manager configuration is read (an empty
  string becomes \<^verbatim>\<open>{}\<close>; an exception of the parser is caught and logged), the
  proximity sensor is reported, and the function returns \<^verbatim>\<open>VRInitError_None\<close>.
\<close>

definition complete_activation ::
  "('dp, 'mi) RenderKit \<Rightarrow> world \<Rightarrow> ('dp, 'mi, 'z) OSVRTrackedHMD_scheme \<Rightarrow>
     EVRInitError \<times> ('dp, 'mi, 'z) OSVRTrackedHMD_scheme \<times> host_call list" where
  "complete_activation lib w self =
     (let self1 = self\<lparr>m_trackerInterface := Some (Interface ''/me/head'' True)\<rparr>;
          configString0 = getStringParameter w ''/renderManagerConfig'';
          configString = (if configString0 = [] then ''{}'' else configString0);
          self2 = (if parse_accepts lib configString
                   then self1\<lparr>m_renderManagerConfig := configString\<rparr> else self1)
      in (VRInitError_None, self2, [ProximitySensorState (m_objectId self2) True]))"

text \<open>
  \<^verbatim>\<open>OSVRTrackedHMD::Activate\<close>. \<open>base_Activate\<close> is \<^verbatim>\<open>OSVRTrackedDevice::Activate\<close>,
  whose body is not among the sources and whose result is discarded here; it is a
  parameter. The outer \<open>option\<close> is \<open>None\<close> when a waiting loop never ends; inside,
  the call throws, or returns its error code with the device and the calls made on the
  driver host.
\<close>

definition Activate ::
  "(uint32_t \<Rightarrow> ('dp, 'mi, 'z) OSVRTrackedHMD_scheme \<Rightarrow> ('dp, 'mi, 'z) OSVRTrackedHMD_scheme) \<Rightarrow>
   ('dp, 'mi) RenderKit \<Rightarrow> world \<Rightarrow> uint32_t \<Rightarrow> ('dp, 'mi, 'z) OSVRTrackedHMD_scheme \<Rightarrow>
     (exception + EVRInitError \<times> ('dp, 'mi, 'z) OSVRTrackedHMD_scheme \<times> host_call list) option"
  where
  "Activate base_Activate lib w object_id self =
     (let self1 = base_Activate object_id self;
          waitTime = 5;
          self2 = (if m_trackerInterface self1 \<noteq> None
                   then self1\<lparr>m_trackerInterface := None\<rparr> else self1);
          (startTime, w1) = std_time w
      in case wait_until (checkStatus_after w1) (startTime + waitTime) w1 of
           None \<Rightarrow> None
         | Some (False, w2) \<Rightarrow> Some (Inr (VRInitError_Driver_Failed, self2, []))
         | Some (True, w2) \<Rightarrow>
             (case configureDistortionParameters lib w2 self2 of
                Inl x \<Rightarrow> Some (Inl x)
              | Inr self3 \<Rightarrow>
                  (let self4 = self3\<lparr>m_displayConfig := server_display w2\<rparr>;
                       (startTime', w3) = std_time w2
                   in case wait_until (checkStartup_after w3) (startTime' + waitTime) w3 of
                        None \<Rightarrow> None
                      | Some (False, w4) \<Rightarrow> Some (Inr (VRInitError_Driver_Failed, self4, []))
                      | Some (True, w4) \<Rightarrow>
                          (case verify_display_config (m_displayConfig self4) of
                             Inl x \<Rightarrow> Some (Inl x)
                           | Inr (Some e) \<Rightarrow> Some (Inr (e, self4, []))
                           | Inr None \<Rightarrow> Some (Inr (complete_activation lib w4 self4))))))"

section \<open>Example inputs\<close>

text \<open>Concrete devices, reports and surroundings, used to run the functions.\<close>

definition identity_quaternion :: HmdQuaternion_t where
  "identity_quaternion = \<lparr>quat_w = 1, quat_x = 0, quat_y = 0, quat_z = 0\<rparr>"

definition stale_pose :: DriverPose_t where
  "stale_pose =
     \<lparr>poseTimeOffset = 7,
      qWorldFromDriverRotation = identity_quaternion,
      vecWorldFromDriverTranslation = Double3 7 7 7,
      qDriverFromHeadRotation = identity_quaternion,
      vecDriverFromHeadTranslation = Double3 7 7 7,
      vecPosition = Double3 7 7 7,
      vecVelocity = Double3 7 7 7,
      vecAcceleration = Double3 7 7 7,
      qRotation = identity_quaternion,
      vecAngularVelocity = Double3 7 7 7,
      vecAngularAcceleration = Double3 7 7 7,
      result = TrackingResult_other 0,
      poseIsValid = False,
      willDriftInYaw = False,
      shouldApplyHeadModel = False\<rparr>"

text \<open>A report with translation \<open>(1, 2, 3)\<close> and a rotation of four distinct coefficients.\<close>

definition report_123 :: OSVR_PoseReport where
  "report_123 =
     \<lparr>sensor = 0,
      pose = \<lparr>translation = Double3 1 2 3,
              rotation = \<lparr>osvrQuatGetW = 1 / 2, osvrQuatGetX = - 1 / 2,
                          osvrQuatGetY = 1 / 4, osvrQuatGetZ = 3 / 4\<rparr>\<rparr>\<rparr>"

definition legacy_device :: OSVRTrackedDevice_legacy where
  "legacy_device = \<lparr>m_DisplayConfiguration = None, legacy_pose = stale_pose\<rparr>"

text \<open>
  A property table in the manner of PropertyProperties.h for three identifiers: 2002
  is registered as a float and 2004 as a uint64, both for head-mounted displays only;
  every other identifier is registered as a bool for all classes.
\<close>

definition registered_kind :: "ETrackedDeviceProperty \<Rightarrow> property_kind" where
  "registered_kind prop =
     (if prop = 2002 then kind_float else if prop = 2004 then kind_uint64 else kind_bool)"

definition example_isWrongDataType :: "ETrackedDeviceProperty \<Rightarrow> property_kind \<Rightarrow> bool" where
  "example_isWrongDataType prop T = (T \<noteq> registered_kind prop)"

definition example_isWrongDeviceClass ::
  "ETrackedDeviceProperty \<Rightarrow> ETrackedDeviceClass \<Rightarrow> bool" where
  "example_isWrongDeviceClass prop device_class =
     ((prop = 2002 \<or> prop = 2004) \<and> device_class \<noteq> TrackedDeviceClass_HMD)"

text \<open>
  A head-mounted display that stores the float 60 under 2002 and, under the uint64
  identifier 2004, a value held as an int32.
\<close>

definition example_device :: OSVRTrackedDevice where
  "example_device =
     \<lparr>m_pose = stale_pose, m_deviceClass = TrackedDeviceClass_HMD, m_objectId = 0,
      m_properties = [2002 \<mapsto> Float_value 60, 2004 \<mapsto> Int32_value 1]\<rparr>"

definition all_success :: error_memory where
  "all_success = (\<lambda>a. TrackedProp_Success)"

text \<open>
  A display of 1920 by 1080 pixels in each layout, and one 3 pixels wide and 1 high.
\<close>

definition example_display_configuration :: "DisplayMode \<Rightarrow> OSVRDisplayConfiguration" where
  "example_display_configuration mode =
     \<lparr>getDisplayMode = mode, getDisplayWidth = 1920, getDisplayHeight = 1080,
      getHorizontalFOVRadians = pi / 2, getFOVAspectRatio = 1, getIPDMeters = 63 / 1000\<rparr>"

definition narrow_display_configuration :: OSVRDisplayConfiguration where
  "narrow_display_configuration =
     \<lparr>getDisplayMode = HORIZONTAL_SIDE_BY_SIDE, getDisplayWidth = 3, getDisplayHeight = 1,
      getHorizontalFOVRadians = pi / 2, getFOVAspectRatio = 1, getIPDMeters = 63 / 1000\<rparr>"

text \<open>
  RenderKit stand-ins over natural numbers: descriptors of two eyes, and a distortion
  lookup that returns its input coordinates (no distortion).
\<close>

definition identity_RenderKit :: "(nat, nat) RenderKit" where
  "identity_RenderKit =
     \<lparr>getEyes_size = (\<lambda>description. 2),
      DistortionParameters = (\<lambda>description eye triangles. eye),
      makeUnstructuredMeshInterpolators = (\<lambda>dp eye mi. (True, Suc eye)),
      DistortionCorrectTextureCoordinate = (\<lambda>eye uv dp colour overfill mi. uv),
      parse_accepts = (\<lambda>s. True)\<rparr>"

definition monitor :: "string \<Rightarrow> Display" where
  "monitor n =
     \<lparr>adapter_description = ''GPU'', name = n, size_width = 2560, size_height = 1440,
      position_x = 0, position_y = 0, display_rotation = Zero, verticalRefreshRate = 144,
      attachedToDesktop = True, edidVendorId = 1, edidProductId = 2\<rparr>"

definition example_hmd :: "(nat, nat) OSVRTrackedHMD" where
  "example_hmd =
     \<lparr>m_pose = stale_pose, m_deviceClass = TrackedDeviceClass_HMD, m_objectId = 0,
      m_properties = Map.empty,
      m_settings = (\<lambda>key default_value. default_value),
      m_display = monitor [],
      m_trackerInterface = None,
      m_displayConfig = [],
      m_displayDescription = [],
      m_distortionParameters = [0, 1],
      m_leftEyeInterpolators = 1,
      m_rightEyeInterpolators = 2,
      m_overfillFactor = 1,
      m_renderManagerConfig = []\<rparr>"

text \<open>
  Surroundings in which the context and the display are ready at once and the server
  describes the display configuration \<open>dc\<close>.
\<close>

definition ready_world :: "DisplayConfig \<Rightarrow> world" where
  "ready_world dc =
     \<lparr>checkStatus_after = (\<lambda>n. True), checkStartup_after = (\<lambda>n. True), updates = 0,
      time_reading = (\<lambda>n. 0), readings = 0, getStringParameter = (\<lambda>path. []),
      server_display = dc\<rparr>"

text \<open>A stand-in for the base class's \<^verbatim>\<open>Activate\<close>: it records the object id.\<close>

definition record_object_id ::
  "uint32_t \<Rightarrow> (nat, nat) OSVRTrackedHMD \<Rightarrow> (nat, nat) OSVRTrackedHMD" where
  "record_object_id object_id self = self\<lparr>m_objectId := object_id\<rparr>"

section \<open>Properties of the eye output viewport\<close>

lemma unat_half: "unat ((w :: uint32_t) div 2) = unat w div 2"
  by (simp add: unat_div)

text \<open>
  Claim C3. For every resolution \<open>(W, H)\<close> and eye, the viewport is the one of the
  layout table: side by side horizontally, size \<open>(W div 2, H)\<close> with the left eye at
  \<open>(0, 0)\<close> and the right eye at \<open>(W div 2, 0)\<close>; side by side vertically, size
  \<open>(W, H div 2)\<close> with the left eye at \<open>(0, 0)\<close> and the right eye at \<open>(0, H div 2)\<close>;
  full screen and every unrecognised mode, size \<open>(W, H)\<close> at \<open>(0, 0)\<close> for both eyes.
\<close>

theorem GetEyeOutputViewport_policy_table:
  fixes cfg :: OSVRDisplayConfiguration
  defines "W \<equiv> getDisplayWidth cfg" and "H \<equiv> getDisplayHeight cfg"
  shows "(getDisplayMode cfg = HORIZONTAL_SIDE_BY_SIDE \<longrightarrow>
            fst (GetEyeOutputViewport cfg Eye_Left) =
              \<lparr>vp_x = 0, vp_y = 0, vp_width = W div 2, vp_height = H\<rparr> \<and>
            fst (GetEyeOutputViewport cfg Eye_Right) =
              \<lparr>vp_x = W div 2, vp_y = 0, vp_width = W div 2, vp_height = H\<rparr>) \<and>
         (getDisplayMode cfg = VERTICAL_SIDE_BY_SIDE \<longrightarrow>
            fst (GetEyeOutputViewport cfg Eye_Left) =
              \<lparr>vp_x = 0, vp_y = 0, vp_width = W, vp_height = H div 2\<rparr> \<and>
            fst (GetEyeOutputViewport cfg Eye_Right) =
              \<lparr>vp_x = 0, vp_y = H div 2, vp_width = W, vp_height = H div 2\<rparr>) \<and>
         (getDisplayMode cfg \<noteq> HORIZONTAL_SIDE_BY_SIDE \<and>
          getDisplayMode cfg \<noteq> VERTICAL_SIDE_BY_SIDE \<longrightarrow>
            fst (GetEyeOutputViewport cfg eye) =
              \<lparr>vp_x = 0, vp_y = 0, vp_width = W, vp_height = H\<rparr>)"
  unfolding W_def H_def GetEyeOutputViewport_def
  by (cases "getDisplayMode cfg") (simp_all add: Let_def)

theorem GetEyeOutputViewport_policy_table_witness:
  "fst (GetEyeOutputViewport (example_display_configuration HORIZONTAL_SIDE_BY_SIDE) Eye_Right) =
     \<lparr>vp_x = 960, vp_y = 0, vp_width = 960, vp_height = 1080\<rparr> \<and>
   fst (GetEyeOutputViewport (example_display_configuration VERTICAL_SIDE_BY_SIDE) Eye_Right) =
     \<lparr>vp_x = 0, vp_y = 540, vp_width = 1920, vp_height = 540\<rparr> \<and>
   fst (GetEyeOutputViewport (example_display_configuration (OTHER_DISPLAY_MODE 7)) Eye_Right) =
     \<lparr>vp_x = 0, vp_y = 0, vp_width = 1920, vp_height = 1080\<rparr>"
  using
    GetEyeOutputViewport_policy_table
      [of "example_display_configuration HORIZONTAL_SIDE_BY_SIDE" Eye_Right]
    GetEyeOutputViewport_policy_table
      [of "example_display_configuration VERTICAL_SIDE_BY_SIDE" Eye_Right]
    GetEyeOutputViewport_policy_table
      [of "example_display_configuration (OTHER_DISPLAY_MODE 7)" Eye_Right]
  by (simp add: example_display_configuration_def)

text \<open>
  Claim C4, as the code has it. In horizontal side-by-side mode the two eye viewports
  never share a pixel, and together they cover exactly the columns below
  \<open>2 * (W div 2)\<close>: for an even width that is the whole display \<open>(0, 0, W, H)\<close>; for
  an odd width the halving \<open>W div 2\<close> truncates and the union is \<open>(0, 0, W - 1, H)\<close>.
\<close>

theorem GetEyeOutputViewport_horizontal_tiling:
  assumes "getDisplayMode cfg = HORIZONTAL_SIDE_BY_SIDE"
  shows "(\<forall>p. \<not> (covers (fst (GetEyeOutputViewport cfg Eye_Left)) p \<and>
                 covers (fst (GetEyeOutputViewport cfg Eye_Right)) p)) \<and>
         (even (unat (getDisplayWidth cfg)) \<longrightarrow>
            (\<forall>p. (covers (fst (GetEyeOutputViewport cfg Eye_Left)) p \<or>
                  covers (fst (GetEyeOutputViewport cfg Eye_Right)) p) =
                 covers (full_display cfg) p)) \<and>
         (odd (unat (getDisplayWidth cfg)) \<longrightarrow>
            (\<forall>p. (covers (fst (GetEyeOutputViewport cfg Eye_Left)) p \<or>
                  covers (fst (GetEyeOutputViewport cfg Eye_Right)) p) =
                 covers (full_display (cfg\<lparr>getDisplayWidth := getDisplayWidth cfg - 1\<rparr>)) p))"
proof (intro conjI impI allI)
  fix p
  show "\<not> (covers (fst (GetEyeOutputViewport cfg Eye_Left)) p \<and>
            covers (fst (GetEyeOutputViewport cfg Eye_Right)) p)"
    using assms by (simp add: GetEyeOutputViewport_def covers_def Let_def unat_half)
next
  fix p
  assume "even (unat (getDisplayWidth cfg))"
  then have "2 * (unat (getDisplayWidth cfg) div 2) = unat (getDisplayWidth cfg)"
    by simp
  then show "(covers (fst (GetEyeOutputViewport cfg Eye_Left)) p \<or>
              covers (fst (GetEyeOutputViewport cfg Eye_Right)) p) =
             covers (full_display cfg) p"
    using assms
    by (auto simp add: GetEyeOutputViewport_def covers_def full_display_def Let_def unat_half)
next
  fix p
  assume odd: "odd (unat (getDisplayWidth cfg))"
  then have "getDisplayWidth cfg \<noteq> 0"
    by auto
  then have "unat (getDisplayWidth cfg - 1) = unat (getDisplayWidth cfg) - 1"
    by (simp add: unat_minus_one)
  moreover from odd have "2 * (unat (getDisplayWidth cfg) div 2) = unat (getDisplayWidth cfg) - 1"
    by presburger
  ultimately show "(covers (fst (GetEyeOutputViewport cfg Eye_Left)) p \<or>
              covers (fst (GetEyeOutputViewport cfg Eye_Right)) p) =
             covers (full_display (cfg\<lparr>getDisplayWidth := getDisplayWidth cfg - 1\<rparr>)) p"
    using assms
    by (auto simp add: GetEyeOutputViewport_def covers_def full_display_def Let_def unat_half)
qed

text \<open>
  The amended claim at a 1920 by 1080 display: pixel \<open>(960, 5)\<close> belongs to the right
  eye only, and to the display.
\<close>

theorem GetEyeOutputViewport_horizontal_tiling_witness:
  "\<not> covers (fst (GetEyeOutputViewport
               (example_display_configuration HORIZONTAL_SIDE_BY_SIDE) Eye_Left)) (960, 5) \<and>
   covers (fst (GetEyeOutputViewport
             (example_display_configuration HORIZONTAL_SIDE_BY_SIDE) Eye_Right)) (960, 5) \<and>
   covers (full_display (example_display_configuration HORIZONTAL_SIDE_BY_SIDE)) (960, 5)"
proof -
  let ?cfg = "example_display_configuration HORIZONTAL_SIDE_BY_SIDE"
  have mode: "getDisplayMode ?cfg = HORIZONTAL_SIDE_BY_SIDE"
    by (simp add: example_display_configuration_def)
  have width: "even (unat (getDisplayWidth ?cfg))"
    by (simp add: example_display_configuration_def)
  have right: "covers (fst (GetEyeOutputViewport ?cfg Eye_Right)) (960, 5)"
    by (simp add: GetEyeOutputViewport_def covers_def Let_def example_display_configuration_def)
  from GetEyeOutputViewport_horizontal_tiling [OF mode] width right show ?thesis
    by blast
qed

text \<open>
  The claim as stated fails at an odd width. On a display 3 pixels wide and 1 high both
  eyes get width \<open>3 div 2 = 1\<close>: the left eye column 0, the right eye column 1, and
  pixel \<open>(2, 0)\<close> of the display is in neither.
\<close>

theorem GetEyeOutputViewport_horizontal_gap_counterexample:
  "getDisplayMode narrow_display_configuration = HORIZONTAL_SIDE_BY_SIDE \<and>
   covers (full_display narrow_display_configuration) (2, 0) \<and>
   \<not> covers (fst (GetEyeOutputViewport narrow_display_configuration Eye_Left)) (2, 0) \<and>
   \<not> covers (fst (GetEyeOutputViewport narrow_display_configuration Eye_Right)) (2, 0)"
  by (simp add: GetEyeOutputViewport_def covers_def full_display_def Let_def
      narrow_display_configuration_def)

section \<open>Properties of the raw projection bounds\<close>

lemma translated_entries:
  "mat_mul (Translation3d t 0 0) c 0 j = c 0 j + t * c 3 j"
  "mat_mul (Translation3d t 0 0) c (Suc 0) j = c 1 j"
  "mat_mul (Translation3d t 0 0) c 2 j = c 2 j"
  "mat_mul (Translation3d t 0 0) c 3 j = c 3 j"
  by (simp_all add: mat_mul_def Translation3d_def)

lemma negate_bound:
  fixes n h k d :: real
  shows "n * (- h * k - 1) / d = - (n * (h * k + 1) / d)"
    and "n * (- h * k + 1) / d = - (n * (h * k - 1) / d)"
proof -
  have "n * (- h * k - 1) = - (n * (h * k + 1))"
    by (simp add: algebra_simps)
  then show "n * (- h * k - 1) / d = - (n * (h * k + 1) / d)"
    by (simp only: minus_divide_left)
  have "n * (- h * k + 1) = - (n * (h * k - 1))"
    by (simp add: algebra_simps)
  then show "n * (- h * k + 1) / d = - (n * (h * k - 1) / d)"
    by (simp only: minus_divide_left)
qed

lemma eye_translation_sides:
  "eye_translation cfg Eye_Left = - (getIPDMeters cfg / 2)"
  "eye_translation cfg Eye_Right = getIPDMeters cfg / 2"
  by (simp_all add: eye_translation_def Let_def)

text \<open>
  The bounds of an eye in closed form, over a centre matrix \<open>c\<close> that is not sheared
  and whose divisors are not zero: with \<open>n\<close> the near distance recovered from the
  third row, the translation \<open>t\<close> of the eye only shows in entry \<open>(0, 2)\<close> of the eye
  matrix, as \<open>t * c 3 2\<close>.
\<close>

lemma GetProjectionRaw_closed_form:
  assumes "c = make_projection_matrix (getHorizontalFOVRadians cfg) (getFOVAspectRatio cfg)
               (1 / 10) 100"
    and "c 0 2 = 0" and "c 3 0 = 0" and "c 0 0 \<noteq> 0" and "c 1 1 \<noteq> 0" and "c 2 2 \<noteq> 1"
    and "n = c 2 3 / (c 2 2 - 1)"
    and "t = eye_translation cfg eye"
  shows "GetProjectionRaw static_cast_float make_projection_matrix cfg eye =
           Some \<lparr>pr_left = static_cast_float (n * (t * c 3 2 - 1) / c 0 0),
                 pr_right = static_cast_float (n * (t * c 3 2 + 1) / c 0 0),
                 pr_top = static_cast_float (n * (c 1 2 + 1) / c 1 1),
                 pr_bottom = static_cast_float (n * (c 1 2 - 1) / c 1 1)\<rparr>"
  using assms
  by (simp add: GetProjectionRaw_def Let_def translated_entries double_div_def)

text \<open>A zero scale term leaves no finite bounds.\<close>

lemma GetProjectionRaw_degenerate:
  assumes "make_projection_matrix (getHorizontalFOVRadians cfg) (getFOVAspectRatio cfg)
             (1 / 10) 100 = (\<lambda>i j. 0)"
  shows "GetProjectionRaw static_cast_float make_projection_matrix cfg eye = None"
  using assms
  by (simp add: GetProjectionRaw_def Let_def mat_mul_def double_div_def)

lemma gluPerspective_symmetric: "symmetric_perspective gluPerspective"
  unfolding symmetric_perspective_def
proof (intro allI impI)
  fix fov aspect z_near z_far :: real
  assume valid: "0 < fov \<and> fov < pi \<and> 0 < aspect \<and> 0 < z_near \<and> z_near < z_far"
  then have "0 < tan (fov / 2)"
    by (intro tan_gt_zero) simp_all
  moreover from valid have "(z_far + z_near) / (z_near - z_far) < 0"
    by (simp add: divide_neg_pos divide_pos_neg field_simps)
  ultimately show "gluPerspective fov aspect z_near z_far 0 2 = 0 \<and>
      gluPerspective fov aspect z_near z_far 3 0 = 0 \<and>
      gluPerspective fov aspect z_near z_far 0 0 \<noteq> 0 \<and>
      gluPerspective fov aspect z_near z_far 1 1 \<noteq> 0 \<and>
      gluPerspective fov aspect z_near z_far 2 2 \<noteq> 1"
    using valid by (simp add: gluPerspective_def Let_def)
qed

text \<open>
  Claim C5. Take a horizontal field of view in \<open>(0, \<pi>)\<close>, a positive aspect ratio and
  a non-negative interpupillary distance, a helper that returns symmetric perspective
  matrices, and a float rounding that is symmetric about zero. Then the left eye is
  translated by \<open>- IPD / 2\<close>, which is not positive, and the right eye by
  \<open>+ IPD / 2\<close>, which is not negative; the bounds of both eyes are finite and are the
  roundings of the closed forms below, in which the translation enters with that sign;
  and the two eyes mirror each other: the left bound of one eye is the negated right
  bound of the other, and top and bottom agree.
\<close>

theorem GetProjectionRaw_mirror_symmetric:
  assumes "0 < getHorizontalFOVRadians cfg" and "getHorizontalFOVRadians cfg < pi"
    and "0 < getFOVAspectRatio cfg"
    and "0 \<le> getIPDMeters cfg"
    and "symmetric_perspective make_projection_matrix"
    and "odd_rounding static_cast_float"
  shows
    "(let c = make_projection_matrix (getHorizontalFOVRadians cfg) (getFOVAspectRatio cfg)
                (1 / 10) 100;
          n = c 2 3 / (c 2 2 - 1);
          h = getIPDMeters cfg / 2;
          left_eye = GetProjectionRaw static_cast_float make_projection_matrix cfg Eye_Left;
          right_eye = GetProjectionRaw static_cast_float make_projection_matrix cfg Eye_Right
      in eye_translation cfg Eye_Left = - h \<and> eye_translation cfg Eye_Left \<le> 0 \<and>
         eye_translation cfg Eye_Right = h \<and> 0 \<le> eye_translation cfg Eye_Right \<and>
         left_eye =
           Some \<lparr>pr_left = static_cast_float (n * (- h * c 3 2 - 1) / c 0 0),
                 pr_right = static_cast_float (n * (- h * c 3 2 + 1) / c 0 0),
                 pr_top = static_cast_float (n * (c 1 2 + 1) / c 1 1),
                 pr_bottom = static_cast_float (n * (c 1 2 - 1) / c 1 1)\<rparr> \<and>
         right_eye =
           Some \<lparr>pr_left = static_cast_float (n * (h * c 3 2 - 1) / c 0 0),
                 pr_right = static_cast_float (n * (h * c 3 2 + 1) / c 0 0),
                 pr_top = static_cast_float (n * (c 1 2 + 1) / c 1 1),
                 pr_bottom = static_cast_float (n * (c 1 2 - 1) / c 1 1)\<rparr> \<and>
         map_option pr_left left_eye = map_option (\<lambda>b. - pr_right b) right_eye \<and>
         map_option pr_right left_eye = map_option (\<lambda>b. - pr_left b) right_eye \<and>
         map_option pr_top left_eye = map_option pr_top right_eye \<and>
         map_option pr_bottom left_eye = map_option pr_bottom right_eye)"
proof -
  define c where
    "c = make_projection_matrix (getHorizontalFOVRadians cfg) (getFOVAspectRatio cfg) (1 / 10) 100"
  define n where "n = c 2 3 / (c 2 2 - 1)"
  define h where "h = getIPDMeters cfg / 2"
  from assms(1-3,5)
  have centre: "c 0 2 = 0" "c 3 0 = 0" "c 0 0 \<noteq> 0" "c 1 1 \<noteq> 0" "c 2 2 \<noteq> 1"
    unfolding c_def symmetric_perspective_def by simp_all
  have sides: "eye_translation cfg Eye_Left = - h" "eye_translation cfg Eye_Right = h"
    by (simp_all add: eye_translation_sides h_def)
  from assms(4) have signs: "- h \<le> 0" "0 \<le> h"
    by (simp_all add: h_def)
  have left_eye: "GetProjectionRaw static_cast_float make_projection_matrix cfg Eye_Left =
      Some \<lparr>pr_left = static_cast_float (n * (- h * c 3 2 - 1) / c 0 0),
            pr_right = static_cast_float (n * (- h * c 3 2 + 1) / c 0 0),
            pr_top = static_cast_float (n * (c 1 2 + 1) / c 1 1),
            pr_bottom = static_cast_float (n * (c 1 2 - 1) / c 1 1)\<rparr>"
    by (rule GetProjectionRaw_closed_form
        [of c make_projection_matrix cfg n "- h" Eye_Left static_cast_float,
         OF c_def centre n_def sides(1) [symmetric]])
  have right_eye: "GetProjectionRaw static_cast_float make_projection_matrix cfg Eye_Right =
      Some \<lparr>pr_left = static_cast_float (n * (h * c 3 2 - 1) / c 0 0),
            pr_right = static_cast_float (n * (h * c 3 2 + 1) / c 0 0),
            pr_top = static_cast_float (n * (c 1 2 + 1) / c 1 1),
            pr_bottom = static_cast_float (n * (c 1 2 - 1) / c 1 1)\<rparr>"
    by (rule GetProjectionRaw_closed_form
        [of c make_projection_matrix cfg n h Eye_Right static_cast_float,
         OF c_def centre n_def sides(2) [symmetric]])
  from assms(6) have odd: "\<And>x. static_cast_float (- x) = - static_cast_float x"
    by (simp add: odd_rounding_def)
  have mirror:
    "static_cast_float (n * (- h * c 3 2 - 1) / c 0 0) =
       - static_cast_float (n * (h * c 3 2 + 1) / c 0 0)"
    "static_cast_float (n * (- h * c 3 2 + 1) / c 0 0) =
       - static_cast_float (n * (h * c 3 2 - 1) / c 0 0)"
    by (simp_all only: negate_bound odd)
  show ?thesis
    unfolding Let_def c_def [symmetric] n_def [symmetric] h_def [symmetric]
      left_eye right_eye sides
    using signs mirror by simp
qed

text \<open>
  The theorem at a field of view of a right angle, aspect ratio 1 and an interpupillary
  distance of 63 mm, over the matrix of \<^verbatim>\<open>gluPerspective\<close> and a cast that leaves
  these values as they are: the recovered near distance is \<open>1/10\<close>, the left eye is
  translated by \<open>- 0.0315\<close> and has the bounds \<open>- 0.09685\<close> and \<open>0.10315\<close>, the right
  eye is translated by \<open>0.0315\<close> and has the bounds \<open>- 0.10315\<close> and \<open>0.09685\<close>.
\<close>

theorem GetProjectionRaw_mirror_symmetric_witness:
  "eye_translation (example_display_configuration HORIZONTAL_SIDE_BY_SIDE) Eye_Left =
     - 63 / 2000 \<and>
   eye_translation (example_display_configuration HORIZONTAL_SIDE_BY_SIDE) Eye_Right =
     63 / 2000 \<and>
   GetProjectionRaw (\<lambda>x. x) gluPerspective
       (example_display_configuration HORIZONTAL_SIDE_BY_SIDE) Eye_Left =
     Some \<lparr>pr_left = - 1937 / 20000, pr_right = 2063 / 20000,
           pr_top = 1 / 10, pr_bottom = - 1 / 10\<rparr> \<and>
   GetProjectionRaw (\<lambda>x. x) gluPerspective
       (example_display_configuration HORIZONTAL_SIDE_BY_SIDE) Eye_Right =
     Some \<lparr>pr_left = - 2063 / 20000, pr_right = 1937 / 20000,
           pr_top = 1 / 10, pr_bottom = - 1 / 10\<rparr>"
proof -
  let ?cfg = "example_display_configuration HORIZONTAL_SIDE_BY_SIDE"
  have fov: "0 < getHorizontalFOVRadians ?cfg" "getHorizontalFOVRadians ?cfg < pi"
    by (simp_all add: example_display_configuration_def)
  have aspect: "0 < getFOVAspectRatio ?cfg"
    by (simp add: example_display_configuration_def)
  have ipd: "0 \<le> getIPDMeters ?cfg"
    by (simp add: example_display_configuration_def)
  have cast: "odd_rounding (\<lambda>x :: real. x)"
    by (simp add: odd_rounding_def)
  have half: "pi / 2 / 2 = pi / 4"
    by simp
  from GetProjectionRaw_mirror_symmetric
    [of ?cfg gluPerspective "\<lambda>x. x", OF fov aspect ipd gluPerspective_symmetric cast]
  show ?thesis
    by (simp add: Let_def example_display_configuration_def gluPerspective_def half tan_45)
qed

section \<open>Properties of the property store\<close>

lemma checkProperty_order:
  "checkProperty isWrongDataType isWrongDeviceClass self T prop =
     (if isWrongDataType prop T then TrackedProp_WrongDataType
      else if isWrongDeviceClass prop (m_deviceClass self) then TrackedProp_WrongDeviceClass
      else if m_deviceClass self = TrackedDeviceClass_Invalid then TrackedProp_InvalidDevice
      else TrackedProp_Success)"
  by (auto simp add: checkProperty_def)

text \<open>
  When the checks pass and a value is stored whose alternative is not \<open>T\<close>, the call
  ends in \<^verbatim>\<open>boost::bad_get\<close>, whatever the error pointer.
\<close>

lemma GetTrackedDeviceProperty_bad_get:
  assumes "checkProperty isWrongDataType isWrongDeviceClass self T prop = TrackedProp_Success"
    and "m_properties self prop = Some stored"
    and "which stored \<noteq> T"
  shows "GetTrackedDeviceProperty isWrongDataType isWrongDeviceClass self T prop error
           default_value mem = Inl bad_get"
  using assms
  by (cases error)
     (simp_all add: GetTrackedDeviceProperty_def if_error_assign_def boost_get_def)

text \<open>
  The order in which a query through a non-null error pointer \<open>Some a\<close> is decided:
  a \<open>T\<close> that does not match the registered kind gives \<open>WrongDataType\<close>, whatever is
  stored; otherwise a property that does not apply to the device class gives
  \<open>WrongDeviceClass\<close>; otherwise an invalid device class gives \<open>InvalidDevice\<close>;
  otherwise a key with no stored value gives \<open>ValueNotProvidedByDevice\<close>; in all four
  cases the caller's default is returned. Otherwise, on a store that keeps the kind of
  each value in step with its identifier, so that the stored value holds a \<open>T\<close>, the
  error is \<open>Success\<close> and the stored value is returned.
\<close>

lemma GetTrackedDeviceProperty_validation_order:
  fixes self :: "'a OSVRTrackedDevice_scheme"
  shows
    "(let r = GetTrackedDeviceProperty isWrongDataType isWrongDeviceClass self T prop (Some a)
               default_value mem
      in if isWrongDataType prop T
           then r = Inr (default_value, mem(a := TrackedProp_WrongDataType))
         else if isWrongDeviceClass prop (m_deviceClass self)
           then r = Inr (default_value, mem(a := TrackedProp_WrongDeviceClass))
         else if m_deviceClass self = TrackedDeviceClass_Invalid
           then r = Inr (default_value, mem(a := TrackedProp_InvalidDevice))
         else (case m_properties self prop of
                 None \<Rightarrow> r = Inr (default_value, mem(a := TrackedProp_ValueNotProvidedByDevice))
               | Some stored \<Rightarrow>
                   which stored = T \<longrightarrow> r = Inr (stored, mem(a := TrackedProp_Success))))"
  by (auto simp add: GetTrackedDeviceProperty_def checkProperty_def if_error_assign_def
      boost_get_def Let_def split: option.splits)

text \<open>
  The order on the example device. Reading the float 2002 as an int32 is refused with
  \<open>WrongDataType\<close> although a value is stored; reading it as a float succeeds with the
  stored 60; reading the bool 1000, never written, returns the default with
  \<open>ValueNotProvidedByDevice\<close>.
\<close>

lemma GetTrackedDeviceProperty_validation_order_example:
  "GetTrackedDeviceProperty example_isWrongDataType example_isWrongDeviceClass example_device
     kind_int32 2002 (Some 0) (Int32_value 5) all_success =
     Inr (Int32_value 5, all_success(0 := TrackedProp_WrongDataType)) \<and>
   GetTrackedDeviceProperty example_isWrongDataType example_isWrongDeviceClass example_device
     kind_float 2002 (Some 0) (Float_value 0) all_success =
     Inr (Float_value 60, all_success(0 := TrackedProp_Success)) \<and>
   GetTrackedDeviceProperty example_isWrongDataType example_isWrongDeviceClass example_device
     kind_bool 1000 (Some 0) (Bool_value True) all_success =
     Inr (Bool_value True, all_success(0 := TrackedProp_ValueNotProvidedByDevice))"
  using
    GetTrackedDeviceProperty_validation_order
      [of example_isWrongDataType example_isWrongDeviceClass example_device kind_int32 2002 0
          "Int32_value 5" all_success]
    GetTrackedDeviceProperty_validation_order
      [of example_isWrongDataType example_isWrongDeviceClass example_device kind_float 2002 0
          "Float_value 0" all_success]
    GetTrackedDeviceProperty_validation_order
      [of example_isWrongDataType example_isWrongDeviceClass example_device kind_bool 1000 0
          "Bool_value True" all_success]
  by (simp add: example_isWrongDataType_def example_isWrongDeviceClass_def registered_kind_def
      example_device_def Let_def)

text \<open>
  Claim C1 on the example device, at the identifier 2004. It is registered as a uint64
  and applies to the device's class, the class is valid and a value is stored, so by
  the claimed order the query for a uint64 ends in \<open>Success\<close> with the stored value.
  The store holds the value as an int32, which is what an assignment of an \<^verbatim>\<open>int\<close>
  literal to \<^verbatim>\<open>properties_[prop]\<close> leaves in the variant; the getter passes the checks,
  finds the key, and \<^verbatim>\<open>boost::get<uint64_t>\<close> throws \<^verbatim>\<open>bad_get\<close>.
\<close>

theorem GetTrackedDeviceProperty_throws_bad_get:
  "\<not> example_isWrongDataType 2004 kind_uint64 \<and>
   \<not> example_isWrongDeviceClass 2004 (m_deviceClass example_device) \<and>
   m_deviceClass example_device \<noteq> TrackedDeviceClass_Invalid \<and>
   m_properties example_device 2004 = Some (Int32_value 1) \<and>
   GetTrackedDeviceProperty example_isWrongDataType example_isWrongDeviceClass example_device
     kind_uint64 2004 (Some 0) (Uint64_value 0) all_success = Inl bad_get \<and>
   GetTrackedDeviceProperty example_isWrongDataType example_isWrongDeviceClass example_device
     kind_uint64 2004 (Some 0) (Uint64_value 0) all_success \<noteq>
     Inr (Int32_value 1, all_success(0 := TrackedProp_Success))"
  by (simp add: GetTrackedDeviceProperty_def checkProperty_def if_error_assign_def
      boost_get_def Let_def example_isWrongDataType_def example_isWrongDeviceClass_def
      registered_kind_def example_device_def)

text \<open>
  Claim C9. With a null error pointer the getter never writes through it: the call
  does not end in undefined behaviour and leaves the caller's memory as it was. What
  it returns (the stored value, the caller's default, or the exception of
  \<^verbatim>\<open>boost::get\<close>) is what it returns with a non-null error pointer.
\<close>

theorem GetTrackedDeviceProperty_null_error_pointer:
  fixes self :: "'a OSVRTrackedDevice_scheme"
  shows
    "(case GetTrackedDeviceProperty isWrongDataType isWrongDeviceClass self T prop None
             default_value mem of
        Inl x \<Rightarrow> x \<noteq> undefined_behaviour
      | Inr (v, mem') \<Rightarrow> mem' = mem) \<and>
     map_sum id fst
       (GetTrackedDeviceProperty isWrongDataType isWrongDeviceClass self T prop None
          default_value mem) =
     map_sum id fst
       (GetTrackedDeviceProperty isWrongDataType isWrongDeviceClass self T prop (Some a)
          default_value mem)"
  by (auto simp add: GetTrackedDeviceProperty_def checkProperty_def if_error_assign_def
      boost_get_def Let_def split: option.splits)

theorem GetTrackedDeviceProperty_null_error_pointer_witness:
  "GetTrackedDeviceProperty example_isWrongDataType example_isWrongDeviceClass example_device
     kind_float 2002 None (Float_value 0) all_success = Inr (Float_value 60, all_success) \<and>
   map_sum id fst
     (GetTrackedDeviceProperty example_isWrongDataType example_isWrongDeviceClass example_device
        kind_float 2002 (Some 0) (Float_value 0) all_success) = Inr (Float_value 60)"
proof -
  have "GetTrackedDeviceProperty example_isWrongDataType example_isWrongDeviceClass
          example_device kind_float 2002 None (Float_value 0) all_success =
        Inr (Float_value 60, all_success)"
    by (simp add: GetTrackedDeviceProperty_def checkProperty_def if_error_assign_def
        boost_get_def Let_def example_isWrongDataType_def example_isWrongDeviceClass_def
        registered_kind_def example_device_def)
  with GetTrackedDeviceProperty_null_error_pointer
    [of all_success example_isWrongDataType example_isWrongDeviceClass example_device
        kind_float 2002 "Float_value 0" 0]
  show ?thesis
    by simp
qed

section \<open>Properties of the tracker callbacks\<close>

lemma upt_3: "[0 ..< 3] = [0, 1, 2]"
  by (simp add: upt_rec)

lemma set3_all:
  "set3 (set3 (set3 v 0 a) (Suc 0) b) 2 c = Double3 a b c"
  by (cases v) simp

lemma get3_all: "Double3 (get3 v 0) (get3 v (Suc 0)) (get3 v 2) = v"
  by (cases v) simp

text \<open>With a null \<open>userdata\<close> the callbacks return at once and publish nothing.\<close>

lemma HmdTrackerCallback_legacy_null: "HmdTrackerCallback_legacy uninitialised None report = None"
  by (simp add: HmdTrackerCallback_legacy_def)

text \<open>
  The legacy callback in closed form. Every field of the published pose is assigned,
  so nothing of the indeterminate local survives; velocities and accelerations are
  zero, the orientation is the report's rotation and the pose is valid. The position,
  however, is the first coordinate of the report's translation three times over.
\<close>

lemma HmdTrackerCallback_legacy_publishes:
  "HmdTrackerCallback_legacy uninitialised (Some self) report =
     Some (self\<lparr>legacy_pose :=
       \<lparr>poseTimeOffset = 0,
        qWorldFromDriverRotation = \<lparr>quat_w = 1, quat_x = 0, quat_y = 0, quat_z = 0\<rparr>,
        vecWorldFromDriverTranslation = Double3 0 0 0,
        qDriverFromHeadRotation = \<lparr>quat_w = 1, quat_x = 0, quat_y = 0, quat_z = 0\<rparr>,
        vecDriverFromHeadTranslation = Double3 0 0 0,
        vecPosition = Double3 (get3 (translation (pose report)) 0)
                              (get3 (translation (pose report)) 0)
                              (get3 (translation (pose report)) 0),
        vecVelocity = Double3 0 0 0,
        vecAcceleration = Double3 0 0 0,
        qRotation = \<lparr>quat_w = osvrQuatGetW (rotation (pose report)),
                     quat_x = osvrQuatGetX (rotation (pose report)),
                     quat_y = osvrQuatGetY (rotation (pose report)),
                     quat_z = osvrQuatGetZ (rotation (pose report))\<rparr>,
        vecAngularVelocity = Double3 0 0 0,
        vecAngularAcceleration = Double3 0 0 0,
        result = TrackingResult_Running_OK,
        poseIsValid = True,
        willDriftInYaw = True,
        shouldApplyHeadModel = True\<rparr>\<rparr>)"
  by (cases uninitialised)
     (simp add: HmdTrackerCallback_legacy_def upt_3 Let_def set3_all)

text \<open>
  The callback of the head-mounted display in closed form: the same pose, with the
  position equal to the report's translation, stored in the device and passed to the
  driver host.
\<close>

lemma HmdTrackerCallback_null: "HmdTrackerCallback uninitialised None report = None"
  by (simp add: HmdTrackerCallback_def)

lemma HmdTrackerCallback_publishes:
  fixes self :: "('dp, 'mi, 'z) OSVRTrackedHMD_scheme"
  defines "published \<equiv> (\<lambda>report.
       \<lparr>poseTimeOffset = 0,
        qWorldFromDriverRotation = \<lparr>quat_w = 1, quat_x = 0, quat_y = 0, quat_z = 0\<rparr>,
        vecWorldFromDriverTranslation = Double3 0 0 0,
        qDriverFromHeadRotation = \<lparr>quat_w = 1, quat_x = 0, quat_y = 0, quat_z = 0\<rparr>,
        vecDriverFromHeadTranslation = Double3 0 0 0,
        vecPosition = translation (pose report),
        vecVelocity = Double3 0 0 0,
        vecAcceleration = Double3 0 0 0,
        qRotation = \<lparr>quat_w = osvrQuatGetW (rotation (pose report)),
                     quat_x = osvrQuatGetX (rotation (pose report)),
                     quat_y = osvrQuatGetY (rotation (pose report)),
                     quat_z = osvrQuatGetZ (rotation (pose report))\<rparr>,
        vecAngularVelocity = Double3 0 0 0,
        vecAngularAcceleration = Double3 0 0 0,
        result = TrackingResult_Running_OK,
        poseIsValid = True,
        willDriftInYaw = True,
        shouldApplyHeadModel = True\<rparr>)"
  shows "HmdTrackerCallback uninitialised (Some self) report =
           Some (self\<lparr>m_pose := published report\<rparr>,
                 [TrackedDevicePoseUpdated (m_objectId self) (published report)])"
  unfolding published_def
  by (cases uninitialised) (simp add: HmdTrackerCallback_def Let_def get3_all)

text \<open>
  Claim C2 at a report whose translation is \<open>(1, 2, 3)\<close>, delivered to the legacy
  callback with a device: the pose that \<^verbatim>\<open>GetPose\<close> then returns has position
  \<open>(1, 1, 1)\<close>, because the position loop reads \<^verbatim>\<open>translation.data[0]\<close> in every
  round. The callback of the head-mounted display publishes \<open>(1, 2, 3)\<close> for the same
  report.
\<close>

theorem HmdTrackerCallback_legacy_position_slip:
  "translation (pose report_123) = Double3 1 2 3 \<and>
   map_option (\<lambda>self. vecPosition (GetPose_legacy self))
     (HmdTrackerCallback_legacy stale_pose (Some legacy_device) report_123) =
     Some (Double3 1 1 1) \<and>
   map_option (\<lambda>(self, calls). vecPosition (m_pose self))
     (HmdTrackerCallback stale_pose (Some example_hmd) report_123) =
     Some (Double3 1 2 3)"
  by (simp add: HmdTrackerCallback_legacy_publishes HmdTrackerCallback_publishes
      GetPose_legacy_def report_123_def)

section \<open>Properties of the distortion lookup\<close>

text \<open>
  The head-mounted display does what the specification describes: with two distortion
  parameter sets in place, each channel is the lookup for that channel on the input
  with \<open>v\<close> flipped, against the interpolators of the eye, with \<open>v\<close> flipped back.
\<close>

lemma ComputeDistortion_flips_and_interpolates:
  fixes self :: "('dp, 'mi, 'z) OSVRTrackedHMD_scheme" and lib :: "('dp, 'mi) RenderKit"
  assumes "2 \<le> length (m_distortionParameters self)"
  defines "osvr_eye \<equiv> (\<lambda>eye. case eye of Eye_Left \<Rightarrow> 0 | Eye_Right \<Rightarrow> (1::nat))"
  defines "interpolators \<equiv> (\<lambda>eye. case eye of Eye_Left \<Rightarrow> m_leftEyeInterpolators self
                                              | Eye_Right \<Rightarrow> m_rightEyeInterpolators self)"
  defines "channel \<equiv> (\<lambda>eye u v colour.
     DistortionCorrectTextureCoordinate lib (osvr_eye eye) (u, 1 - v)
       (m_distortionParameters self ! osvr_eye eye) colour (m_overfillFactor self)
       (interpolators eye))"
  shows "ComputeDistortion lib self eye u v =
           Inr \<lparr>rfRed = (fst (channel eye u v COLOR_RED), 1 - snd (channel eye u v COLOR_RED)),
                rfGreen = (fst (channel eye u v COLOR_GREEN), 1 - snd (channel eye u v COLOR_GREEN)),
                rfBlue = (fst (channel eye u v COLOR_BLUE), 1 - snd (channel eye u v COLOR_BLUE))\<rparr>"
  using assms(1) unfolding osvr_eye_def interpolators_def channel_def
  by (cases eye) (auto simp add: ComputeDistortion_def Let_def)

lemma ComputeDistortion_legacy_constant:
  "ComputeDistortion_legacy eye u v = ComputeDistortion_legacy eye' u' v'"
  by (simp add: ComputeDistortion_legacy_def)

text \<open>
  Claim C6 at the left eye and the input \<open>(1/4, 1/4)\<close>, with a lookup that leaves
  coordinates as they are. The head-mounted display returns \<open>(1/4, 1/4)\<close> for each
  channel, as flipping, interpolating and flipping back must; the legacy device
  returns \<open>(0, 0)\<close> for each channel, as it does for every eye and input.
\<close>

theorem ComputeDistortion_legacy_returns_zero:
  "ComputeDistortion identity_RenderKit example_hmd Eye_Left (1 / 4) (1 / 4) =
     Inr \<lparr>rfRed = (1 / 4, 1 / 4), rfGreen = (1 / 4, 1 / 4), rfBlue = (1 / 4, 1 / 4)\<rparr> \<and>
   ComputeDistortion_legacy Eye_Left (1 / 4) (1 / 4) =
     \<lparr>rfRed = (0, 0), rfGreen = (0, 0), rfBlue = (0, 0)\<rparr>"
  by (simp add: ComputeDistortion_def ComputeDistortion_legacy_def Let_def
      identity_RenderKit_def example_hmd_def)

section \<open>Properties of the display configuration\<close>

text \<open>\<^verbatim>\<open>find\<close> returns \<^verbatim>\<open>npos\<close> exactly when the string is not contained.\<close>

lemma string_find_None: "string_find s str = None \<longleftrightarrow> \<not> sublist str s"
  by (induction s) (auto simp add: sublist_Cons_right)

lemma None_string_find: "None = string_find s str \<longleftrightarrow> \<not> sublist str s"
  using string_find_None [of s str] by auto

lemma configure_loop_not_found:
  "\<forall>d \<in> set displays. \<not> sublist display_name (name d) \<Longrightarrow>
   configure_loop display_name displays found = found"
  by (induction displays) (simp_all add: None_string_find)

lemma configure_loop_result:
  "configure_loop display_name displays (d0, False) = (d0, False) \<or>
   (\<exists>d \<in> set displays. sublist display_name (name d) \<and>
      configure_loop display_name displays (d0, False) = (d, True))"
  by (induction displays) (auto simp add: None_string_find)

text \<open>
  Claim C10. When no detected display has a name that contains the configured display
  name, \<^verbatim>\<open>configure\<close> leaves \<^verbatim>\<open>display_\<close> equal to the built-in default, whatever it
  held before: name \<open>OSVR HDK\<close>, 1920 by 1080 pixels at position \<open>(1920, 0)\<close>, 60 Hz,
  attached to the desktop. In every case \<^verbatim>\<open>display_\<close> ends as that default or as a
  detected display whose name contains the configured name, and the function, which
  has no failing path, returns.
\<close>

theorem configure_installs_default_display:
  fixes self :: "('dp, 'mi, 'z) OSVRTrackedHMD_scheme"
  defines "display_name \<equiv> m_settings self ''displayName'' ''OSVR''"
  defines "default_display \<equiv>
     \<lparr>adapter_description = ''Unknown'', name = ''OSVR HDK'', size_width = 1920,
      size_height = 1080, position_x = 1920, position_y = 0, display_rotation = Zero,
      verticalRefreshRate = 60, attachedToDesktop = True, edidVendorId = 53838,
      edidProductId = 4121\<rparr>"
  shows "((\<forall>d \<in> set displays. \<not> sublist display_name (name d)) \<longrightarrow>
            m_display (configure displays self) = default_display) \<and>
         (m_display (configure displays self) = default_display \<or>
          (\<exists>d \<in> set displays. sublist display_name (name d) \<and>
             m_display (configure displays self) = d))"
proof (intro conjI impI)
  assume "\<forall>d \<in> set displays. \<not> sublist display_name (name d)"
  from configure_loop_not_found [OF this, of "(m_display self, False)"]
  show "m_display (configure displays self) = default_display"
    unfolding display_name_def default_display_def
    by (cases "m_display self") (simp add: configure_def Let_def)
next
  from configure_loop_result [of display_name displays "m_display self"]
  show "m_display (configure displays self) = default_display \<or>
        (\<exists>d \<in> set displays. sublist display_name (name d) \<and>
           m_display (configure displays self) = d)"
    unfolding display_name_def default_display_def
    by (cases "m_display self") (auto simp add: configure_def Let_def)
qed

text \<open>
  The theorem with two monitors attached, neither of which has \<open>OSVR\<close> in its name.
\<close>

theorem configure_installs_default_display_witness:
  "m_display (configure [monitor ''DELL U2715H'', monitor ''Color LCD''] example_hmd) =
     \<lparr>adapter_description = ''Unknown'', name = ''OSVR HDK'', size_width = 1920,
      size_height = 1080, position_x = 1920, position_y = 0, display_rotation = Zero,
      verticalRefreshRate = 60, attachedToDesktop = True, edidVendorId = 53838,
      edidProductId = 4121\<rparr>"
proof -
  have "\<forall>d \<in> set [monitor ''DELL U2715H'', monitor ''Color LCD''].
      \<not> sublist (m_settings example_hmd ''displayName'' ''OSVR'') (name d)"
    by (simp add: monitor_def example_hmd_def flip: string_find_None)
  with configure_installs_default_display
    [of "[monitor ''DELL U2715H'', monitor ''Color LCD'']" example_hmd]
  show ?thesis
    by blast
qed

section \<open>Properties of the activation\<close>

lemma wait_until_ready:
  "ready (updates w) \<Longrightarrow> wait_until ready deadline w = Some (True, w)"
  by (subst wait_until.simps) simp

lemma wait_until_timeout:
  "\<not> ready (updates w) \<Longrightarrow> deadline < time_reading w (readings w) \<Longrightarrow>
   wait_until ready deadline w =
     Some (False, w\<lparr>updates := Suc (updates w), readings := Suc (readings w)\<rparr>)"
  by (subst wait_until.simps) (simp add: context_update_def std_time_def)

text \<open>
  With exactly one viewer the first comparison of the verification, \<open>getNumViewers \<noteq> 1\<close>,
  is false and the conjunction with it: nothing about the eyes or their surfaces is
  looked at, and activation goes on.
\<close>

lemma verify_display_config_single_viewer:
  "getNumViewers dc = 1 \<Longrightarrow> verify_display_config dc = Inr None"
  by (simp add: verify_display_config_def unexpected_display_parameters_def)

text \<open>
  The block returns \<open>HmdDisplayNotFound\<close> only for a configuration of at least two
  viewers whose first viewer has at least three eyes, the first with one surface and
  the second with none.
\<close>

lemma verify_display_config_not_found:
  assumes "verify_display_config dc = Inr (Some e)"
  shows "e = VRInitError_Driver_HmdDisplayNotFound \<and> 2 \<le> length dc \<and> 3 \<le> length (dc ! 0) \<and>
         dc ! 0 ! 0 = 1 \<and> dc ! 0 ! 1 = 0"
proof -
  from assms have unexpected: "unexpected_display_parameters dc = Inr True"
    by (auto simp add: verify_display_config_def split: sum.splits bool.splits)
  then have viewers: "length dc \<noteq> 1" "0 < length dc"
    and eyes: "length (dc ! 0) \<noteq> 2" "1 < length (dc ! 0)"
    and surfaces: "dc ! 0 ! 0 = 1" "dc ! 0 ! 1 \<noteq> 1"
    by (auto simp add: unexpected_display_parameters_def getNumViewers_def getNumEyes_def
        getNumSurfaces_def split: if_splits)
  from assms unexpected viewers eyes surfaces
  have "e = VRInitError_Driver_HmdDisplayNotFound" and "dc ! 0 ! 1 < 1"
    by (auto simp add: verify_display_config_def getNumViewers_def getNumEyes_def
        getNumSurfaces_def split: if_splits)
  moreover from viewers have "2 \<le> length dc"
    by linarith
  moreover from eyes have "3 \<le> length (dc ! 0)"
    by linarith
  ultimately show ?thesis
    using surfaces by simp
qed

text \<open>
  Claim C7 on two invalid configurations, with the context and the display ready at
  once: a single viewer with one eye, and a single viewer with two eyes of which the
  second has no surface. In both \<^verbatim>\<open>Activate\<close> returns \<^verbatim>\<open>VRInitError_None\<close>, registers the
  tracker callback and reports the proximity sensor.
\<close>

theorem Activate_accepts_invalid_display:
  "map_option (map_sum id (\<lambda>(e, self, calls). (e, m_trackerInterface self, calls)))
     (Activate record_object_id identity_RenderKit (ready_world [[1]]) 1 example_hmd) =
     Some (Inr (VRInitError_None, Some (Interface ''/me/head'' True),
                [ProximitySensorState 1 True])) \<and>
   map_option (map_sum id (\<lambda>(e, self, calls). (e, m_trackerInterface self, calls)))
     (Activate record_object_id identity_RenderKit (ready_world [[1, 0]]) 1 example_hmd) =
     Some (Inr (VRInitError_None, Some (Interface ''/me/head'' True),
                [ProximitySensorState 1 True]))"
  by (simp add: Activate_def Let_def std_time_def ready_world_def wait_until_ready
      configureDistortionParameters_def identity_RenderKit_def example_hmd_def
      record_object_id_def verify_display_config_single_viewer getNumViewers_def
      complete_activation_def)

end
